theory Spec2Isabelle
  imports Complex_Main
begin

section \<open>Values and plain objects\<close>

text \<open>
  The runtime works on dynamically typed values.  Only the shapes that the functions of
  \<^verbatim>\<open>state.ts\<close> inspect are distinguished: \<^verbatim>\<open>null\<close>, \<^verbatim>\<open>undefined\<close>, booleans, numbers,
  strings, \<^verbatim>\<open>HibikiBlob\<close> instances (mimetype and base64 data), arrays and plain objects.
  A plain object is an association list in insertion order; it stands for the object's own
  properties, with at most one entry per key.  The objects of this module are created as
  \<^verbatim>\<open>{}\<close>, so they also inherit the members of \<^verbatim>\<open>Object.prototype\<close>; \<open>VInherited n\<close> is the
  member of that name.  The data roots and the handler tables are read with inheritance
  (\<open>js_in\<close>, \<open>js_get\<close>); the keys of \<^verbatim>\<open>specials\<close> and the module names are taken to differ
  from the inherited names.
\<close>

datatype val =
    VNull
  | VUndefined
  | VBool bool
  | VNum int
  | VStr string
  | VBlob string string
  | VList "val list"
  | VObj "(string \<times> val) list"
  | VInherited string

type_synonym 'a jsobj = "(string \<times> 'a) list"

text \<open>\<^verbatim>\<open>obj[k] = v\<close>: an existing property keeps its position, a new one goes last.\<close>

fun obj_set :: "string \<Rightarrow> 'a \<Rightarrow> 'a jsobj \<Rightarrow> 'a jsobj" where
  "obj_set k v [] = [(k, v)]"
| "obj_set k v ((k', v') # ps) = (if k' = k then (k, v) # ps else (k', v') # obj_set k v ps)"

text \<open>\<^verbatim>\<open>Object.assign(target, src)\<close>: every property of \<^verbatim>\<open>src\<close>, in order, is written to \<^verbatim>\<open>target\<close>.\<close>

definition Object_assign :: "'a jsobj \<Rightarrow> 'a jsobj \<Rightarrow> 'a jsobj" where
  "Object_assign target src = fold (\<lambda>(k, v) t. obj_set k v t) src target"

text \<open>\<^verbatim>\<open>k in obj\<close> on own properties.\<close>

definition has_key :: "string \<Rightarrow> 'a jsobj \<Rightarrow> bool" where
  "has_key k obj = (map_of obj k \<noteq> None)"

text \<open>The property names that every plain object inherits from \<^verbatim>\<open>Object.prototype\<close>.\<close>

definition Object_prototype_names :: "string list" where
  "Object_prototype_names =
     [''constructor'', ''hasOwnProperty'', ''isPrototypeOf'', ''propertyIsEnumerable'',
      ''toLocaleString'', ''toString'', ''valueOf'', ''__proto__'', ''__defineGetter__'',
      ''__defineSetter__'', ''__lookupGetter__'', ''__lookupSetter__'']"

text \<open>\<^verbatim>\<open>k in obj\<close> on a plain object: an own property or an inherited one.\<close>

definition js_in :: "string \<Rightarrow> 'a jsobj \<Rightarrow> bool" where
  "js_in k obj = (if has_key k obj then True else k \<in> set Object_prototype_names)"

text \<open>\<^verbatim>\<open>obj[k]\<close> on a plain object of values.\<close>

definition js_get :: "val jsobj \<Rightarrow> string \<Rightarrow> val" where
  "js_get obj k =
     (case map_of obj k of
        Some v \<Rightarrow> v
      | None \<Rightarrow> if k \<in> set Object_prototype_names then VInherited k else VUndefined)"

section \<open>DataEnvironment\<close>

datatype boundary = soft | hard

record HandlerValType =
  handlerStr :: string
  node :: string

text \<open>
  \<^verbatim>\<open>class DataEnvironment\<close>.  The \<^verbatim>\<open>dbstate\<close> back-reference is passed separately to the
  functions that read it.  Absent (\<^verbatim>\<open>null\<close>/\<^verbatim>\<open>undefined\<close>) fields are \<open>None\<close>.
\<close>

datatype DataEnvironment = DataEnvironment
  (parent: "DataEnvironment option")
  (data: val)
  (specials: "val jsobj")
  (handlers: "HandlerValType jsobj")
  (onlySpecials: bool)
  (componentRoot: "val option")
  (htmlContext: "string option")
  (description: "string option")
  (eventBoundary: "boundary option")

record DataEnvironmentOpts =
  opt_componentRoot :: "val option"
  opt_description :: "string option"
  opt_handlers :: "HandlerValType jsobj option"
  opt_htmlContext :: "string option"
  opt_eventBoundary :: "string option"

text \<open>The constructor (lines 1185-1202): only \<^verbatim>\<open>"soft"\<close> and \<^verbatim>\<open>"hard"\<close> are kept as boundary.\<close>

definition new_DataEnvironment :: "val \<Rightarrow> DataEnvironmentOpts option \<Rightarrow> DataEnvironment" where
  "new_DataEnvironment d opts =
     (case opts of
        None \<Rightarrow> DataEnvironment None d [] [] False None None None None
      | Some os \<Rightarrow>
          DataEnvironment None d []
            (case opt_handlers os of None \<Rightarrow> [] | Some h \<Rightarrow> h)
            False
            (opt_componentRoot os)
            (opt_htmlContext os)
            (opt_description os)
            (if opt_eventBoundary os = Some ''soft'' then Some soft
             else if opt_eventBoundary os = Some ''hard'' then Some hard
             else None))"

text \<open>\<^verbatim>\<open>makeChildEnv\<close> (lines 1480-1487) and \<^verbatim>\<open>makeSpecialChildEnv\<close> (lines 1489-1493).\<close>

definition makeChildEnv ::
  "DataEnvironment \<Rightarrow> val \<Rightarrow> val jsobj option \<Rightarrow> DataEnvironmentOpts option \<Rightarrow> DataEnvironment" where
  "makeChildEnv this d sp opts =
     (case new_DataEnvironment d opts of
        DataEnvironment _ d' _ h os cr hc ds eb \<Rightarrow>
          DataEnvironment (Some this) d'
            (Object_assign [] (case sp of None \<Rightarrow> [] | Some s \<Rightarrow> s)) h os cr hc ds eb)"

definition makeSpecialChildEnv ::
  "DataEnvironment \<Rightarrow> val jsobj option \<Rightarrow> DataEnvironmentOpts option \<Rightarrow> DataEnvironment" where
  "makeSpecialChildEnv this sp opts =
     (case makeChildEnv this (data this) sp opts of
        DataEnvironment p d s h _ cr hc ds eb \<Rightarrow> DataEnvironment p d s h True cr hc ds eb)"

text \<open>\<^verbatim>\<open>getContextStack\<close> (lines 1467-1478): the \<^verbatim>\<open>specials\<close> of every scope, nearest first.\<close>

fun getContextStack :: "DataEnvironment \<Rightarrow> val jsobj list" where
  "getContextStack (DataEnvironment None d s h os cr hc ds eb) = [s]"
| "getContextStack (DataEnvironment (Some p) d s h os cr hc ds eb) = s # getContextStack p"

text \<open>\<^verbatim>\<open>getLocalStack\<close> (lines 1452-1465): the \<^verbatim>\<open>data\<close> of every scope that is not \<^verbatim>\<open>onlySpecials\<close>.\<close>

fun getLocalStack :: "DataEnvironment \<Rightarrow> val list" where
  "getLocalStack (DataEnvironment None d s h os cr hc ds eb) = (if os then [] else [d])"
| "getLocalStack (DataEnvironment (Some p) d s h os cr hc ds eb) =
     (if os then getLocalStack p else d # getLocalStack p)"

text \<open>
  \<^verbatim>\<open>getSquashedContext\<close> (lines 1338-1345): the loop runs over the context stack from its last
  element (the root) down to index 0 (this scope), assigning each into the result.
\<close>

definition getSquashedContext :: "DataEnvironment \<Rightarrow> val jsobj" where
  "getSquashedContext this = fold (\<lambda>s rtn. Object_assign rtn s) (rev (getContextStack this)) []"

text \<open>\<^verbatim>\<open>getContextKey\<close> (lines 1427-1435), for keys other than the inherited names.\<close>

fun getContextKey :: "DataEnvironment \<Rightarrow> string \<Rightarrow> val" where
  "getContextKey (DataEnvironment par d s h os cr hc ds eb) contextkey =
     (case map_of s contextkey of
        Some v \<Rightarrow> v
      | None \<Rightarrow> (case par of None \<Rightarrow> VNull | Some p \<Rightarrow> getContextKey p contextkey))"

text \<open>The chain A -> B -> C of the flatten-versus-shadow example.\<close>

definition scopeA :: DataEnvironment where
  "scopeA = DataEnvironment None VNull [(''x'', VNum 1), (''y'', VNum 2)] [] False None None None None"

definition scopeB :: DataEnvironment where
  "scopeB = makeChildEnv scopeA VNull (Some []) None"

definition scopeC :: DataEnvironment where
  "scopeC = makeChildEnv scopeB VNull (Some [(''x'', VNum 3)]) None"

section \<open>Event dispatch\<close>

text \<open>\<^verbatim>\<open>str.startsWith(prefix)\<close>.\<close>

definition startsWith :: "string \<Rightarrow> string \<Rightarrow> bool" where
  "startsWith str pre = (take (length pre) str = pre)"

text \<open>\<^verbatim>\<open>eventBubbles\<close> (lines 1148-1156).  No function of the module calls it.\<close>

definition eventBubbles :: "string \<Rightarrow> bool" where
  "eventBubbles event =
     (if event = ''load'' then False
      else if startsWith event ''x'' then False
      else True)"

record EventType =
  event :: string
  bubble :: bool
  datacontext :: "val jsobj option"

text \<open>
  \<^verbatim>\<open>getFullHtmlContext\<close> (lines 1214-1234): the loop walks from this scope to the root and
  prepends each further context.
\<close>

fun fullHtmlContext_loop :: "DataEnvironment option \<Rightarrow> string \<Rightarrow> string" where
  "fullHtmlContext_loop None rtn = rtn"
| "fullHtmlContext_loop (Some (DataEnvironment par d s h os cr hc ds eb)) rtn =
     fullHtmlContext_loop par
       (case hc of
          None \<Rightarrow> rtn
        | Some c \<Rightarrow>
            if c = ''<define-vars>'' then rtn
            else if rtn = '''' then c
            else if c = ''<root>'' then rtn
            else c @ '' | '' @ rtn)"

definition getFullHtmlContext :: "DataEnvironment \<Rightarrow> string" where
  "getFullHtmlContext this =
     (let rtn = fullHtmlContext_loop (Some this) '''' in
      if rtn = '''' then ''<unknown>'' else rtn)"

text \<open>
  \<^verbatim>\<open>getEventBoundary\<close> (lines 1370-1384).  A handler entry is never \<^verbatim>\<open>null\<close>, and neither is
  an inherited member, so \<^verbatim>\<open>env.handlers[event] != null\<close> is the presence of the key, own or
  inherited.
\<close>

fun getEventBoundary :: "DataEnvironment \<Rightarrow> string option \<Rightarrow> DataEnvironment option" where
  "getEventBoundary (DataEnvironment par d s h os cr hc ds eb) ev =
     (if eb = Some hard then Some (DataEnvironment par d s h os cr hc ds eb)
      else if (case ev of
                 None \<Rightarrow> False
               | Some e \<Rightarrow>
                   if eb = Some soft then (if e = ''*'' then True else js_in e h) else False)
        then Some (DataEnvironment par d s h os cr hc ds eb)
      else (case par of None \<Rightarrow> None | Some p \<Rightarrow> getEventBoundary p ev))"

text \<open>\<^verbatim>\<open>getParentEventBoundary\<close> (lines 1386-1392).\<close>

definition getParentEventBoundary :: "DataEnvironment \<Rightarrow> string option \<Rightarrow> DataEnvironment option" where
  "getParentEventBoundary this ev =
     (case getEventBoundary this ev of
        None \<Rightarrow> None
      | Some eb1 \<Rightarrow> (case parent eb1 of None \<Rightarrow> None | Some p \<Rightarrow> getEventBoundary p ev))"

text \<open>
  \<^verbatim>\<open>HibikiState.unhandledEvent\<close> (lines 1890-1897): an \<^verbatim>\<open>"error"\<close> event carrying an error
  goes to \<^verbatim>\<open>reportErrorObj\<close>, anything else is written to the console.
\<close>

datatype unhandled_report = ReportErrorObj val | ConsoleLogUnhandled string

definition is_nullish :: "val \<Rightarrow> bool" where
  "is_nullish v = (case v of VNull \<Rightarrow> True | VUndefined \<Rightarrow> True | _ \<Rightarrow> False)"

definition unhandledEvent :: "EventType \<Rightarrow> unhandled_report" where
  "unhandledEvent ev =
     (if event ev = ''error'' then
        (case datacontext ev of
           None \<Rightarrow> ConsoleLogUnhandled (event ev)
         | Some dc \<Rightarrow>
             (case map_of dc ''error'' of
                None \<Rightarrow> ConsoleLogUnhandled (event ev)
              | Some err \<Rightarrow>
                  if is_nullish err then ConsoleLogUnhandled (event ev) else ReportErrorObj err))
      else ConsoleLogUnhandled (event ev))"

text \<open>
  The frames pushed on the runtime context by \<^verbatim>\<open>fireEvent\<close>: the arguments of the two
  \<^verbatim>\<open>sprintf\<close> calls (node, event name, full html context of the boundary scope).
  \<open>ParsingInherited\<close> is the parsing frame when the handler value is an inherited member,
  which has no node.
\<close>

datatype ctx_frame =
    ParsingHandler string string string
  | RunningHandler string string string
  | ParsingInherited string string

text \<open>
  What a call of \<^verbatim>\<open>fireEvent\<close> does.  \<open>'b\<close> is the type of parsed blocks.
  \<^item> \<open>Unhandled\<close>: no boundary scope; \<^verbatim>\<open>unhandledEvent\<close> was called and \<^verbatim>\<open>null\<close> returned;
  \<^item> \<open>NotDispatched\<close>: \<^verbatim>\<open>null\<close> returned without running or reporting anything;
  \<^item> \<open>ParseBlockFailed\<close>: \<^verbatim>\<open>ParseBlockThrow\<close> threw on the handler text;
  \<^item> \<open>InheritedMember\<close>: the event name is inherited by the handler table, the handler value
    is that member and has no \<^verbatim>\<open>handlerStr\<close>: \<^verbatim>\<open>ParseBlockThrow(undefined)\<close> was called with the
    parsing frame pushed; a block it returns would run in the given scope, through the
    throwing executor if the flag is set;
  \<^item> \<open>ExecuteBlockPThrow\<close>: the promise of \<^verbatim>\<open>DataCtx.ExecuteBlockPThrow(block, eventEnv, rtctx)\<close>;
  \<^item> \<open>ExecuteBlockP\<close>: the promise of \<^verbatim>\<open>DataCtx.ExecuteBlockP(tcfBlock, eventEnv, rtctx, false)\<close>.
\<close>

datatype 'b fired =
    Unhandled unhandled_report
  | NotDispatched
  | ParseBlockFailed string
  | InheritedMember string DataEnvironment bool
  | ExecuteBlockPThrow 'b DataEnvironment
  | ExecuteBlockP 'b DataEnvironment

text \<open>
  \<^verbatim>\<open>fireEvent\<close> (lines 1394-1425).  \<open>ParseBlockThrow\<close> is the block parser of \<^verbatim>\<open>datactx\<close>
  (\<open>None\<close> when it throws).  The runtime context is a stack with its top at the end.  The
  recursive call passes no third argument, so \<^verbatim>\<open>throwErrors\<close> is \<^verbatim>\<open>undefined\<close> there.
\<close>

function fireEvent ::
  "(string \<Rightarrow> 'b option) \<Rightarrow> DataEnvironment \<Rightarrow> EventType \<Rightarrow> ctx_frame list \<Rightarrow> bool
     \<Rightarrow> ctx_frame list \<times> 'b fired" where
  "fireEvent ParseBlockThrow this ev rtctx throwErrors =
     (case getEventBoundary this (Some (event ev)) of
        None \<Rightarrow> (rtctx, Unhandled (unhandledEvent ev))
      | Some env \<Rightarrow>
          if js_in (event ev) (handlers env) then
            (let htmlCtx = ''event'' @ (if bubble ev then ''-bubble'' else '''')
                             @ ''('' @ event ev @ '')'';
                 eventEnv = makeSpecialChildEnv env (datacontext ev)
                              (Some \<lparr>opt_componentRoot = None, opt_description = None,
                                     opt_handlers = None, opt_htmlContext = Some htmlCtx,
                                     opt_eventBoundary = None\<rparr>)
             in case map_of (handlers env) (event ev) of
                  None \<Rightarrow>
                    (rtctx @ [ParsingInherited (event ev) (getFullHtmlContext env)],
                     InheritedMember (event ev) eventEnv throwErrors)
                | Some hval \<Rightarrow>
                    (case ParseBlockThrow (handlerStr hval) of
                       None \<Rightarrow>
                         (rtctx @ [ParsingHandler (node hval) (event ev) (getFullHtmlContext env)],
                          ParseBlockFailed (handlerStr hval))
                     | Some block \<Rightarrow>
                         (rtctx @ [RunningHandler (node hval) (event ev) (getFullHtmlContext env)],
                          if throwErrors then ExecuteBlockPThrow block eventEnv
                          else ExecuteBlockP block eventEnv)))
          else if bubble ev then
            (case parent env of
               None \<Rightarrow> (rtctx, NotDispatched)
             | Some p \<Rightarrow> fireEvent ParseBlockThrow p ev rtctx False)
          else (rtctx, NotDispatched))"
  by pat_completeness auto
termination
proof (relation "measure (\<lambda>(P, this, ev, rtctx, t). size this)")
  show "wf (measure (\<lambda>(P, this, ev, rtctx, t). size this))" by simp
next
  fix ParseBlockThrow :: "string \<Rightarrow> 'b option"
    and this :: DataEnvironment and ev :: EventType and rtctx :: "ctx_frame list"
    and throwErrors :: bool and env p :: DataEnvironment
  assume b: "getEventBoundary this (Some (event ev)) = Some env"
    and p: "parent env = Some p"
  have le: "size b \<le> size e" if "getEventBoundary e n = Some b" for e n b
    using that
  proof (induction e n rule: getEventBoundary.induct)
    case (1 par d s h os cr hc ds eb ev)
    then show ?case
      by (cases par) (auto split: if_splits)
  qed
  have "size p < size env" using p by (cases env) auto
  with le [OF b]
  show "((ParseBlockThrow, p, ev, rtctx, False), (ParseBlockThrow, this, ev, rtctx, throwErrors))
          \<in> measure (\<lambda>(P, this, ev, rtctx, t). size this)"
    by simp
qed

text \<open>
  The boundaries an event meets on its way out: the boundary found from a scope, then the
  one found from that boundary's parent, and so on (\<^verbatim>\<open>getParentEventBoundary\<close>, repeated).
\<close>

function eventBoundaries :: "DataEnvironment \<Rightarrow> string \<Rightarrow> DataEnvironment list" where
  "eventBoundaries this name =
     (case getEventBoundary this (Some name) of
        None \<Rightarrow> []
      | Some env \<Rightarrow>
          env # (case parent env of None \<Rightarrow> [] | Some p \<Rightarrow> eventBoundaries p name))"
  by pat_completeness auto
termination
proof (relation "measure (\<lambda>(this, name). size this)")
  show "wf (measure (\<lambda>(this, name). size this))" by simp
next
  fix this :: DataEnvironment and name :: string and env p :: DataEnvironment
  assume b: "getEventBoundary this (Some name) = Some env"
    and p: "parent env = Some p"
  have le: "size b \<le> size e" if "getEventBoundary e n = Some b" for e n b
    using that
  proof (induction e n rule: getEventBoundary.induct)
    case (1 par d s h os cr hc ds eb ev)
    then show ?case
      by (cases par) (auto split: if_splits)
  qed
  have "size p < size env" using p by (cases env) auto
  with le [OF b]
  show "((p, name), (this, name)) \<in> measure (\<lambda>(this, name). size this)"
    by simp
qed

declare eventBoundaries.simps [simp del]

text \<open>
  Modelled from the spec: \<^verbatim>\<open>DataCtx.ExecuteBlockPThrow\<close> and \<^verbatim>\<open>DataCtx.ExecuteBlockP\<close>, which
  live in \<^verbatim>\<open>datactx.ts\<close>.  The spec says of a handler's execution: if \<^verbatim>\<open>throwOnError\<close> is
  requested, propagation of a thrown error is left to the caller; otherwise the block's own
  execution must catch and report errors through the standard error-reporting path rather
  than rejecting the caller.  \<open>run\<close> is the execution of a block in a scope: the value it
  gives, or (\<open>Inl\<close>) the error it throws.  \<open>settled\<close> is what becomes of the caller's promise.
\<close>

datatype settled =
    Fulfilled val
  | Rejected val
  | ReportedNotRejected val

definition ExecuteBlockPThrow_spec ::
  "('b \<Rightarrow> DataEnvironment \<Rightarrow> val + val) \<Rightarrow> 'b \<Rightarrow> DataEnvironment \<Rightarrow> settled" where
  "ExecuteBlockPThrow_spec run block env =
     (case run block env of Inl err \<Rightarrow> Rejected err | Inr v \<Rightarrow> Fulfilled v)"

definition ExecuteBlockP_spec ::
  "('b \<Rightarrow> DataEnvironment \<Rightarrow> val + val) \<Rightarrow> 'b \<Rightarrow> DataEnvironment \<Rightarrow> settled" where
  "ExecuteBlockP_spec run block env =
     (case run block env of Inl err \<Rightarrow> ReportedNotRejected err | Inr v \<Rightarrow> Fulfilled v)"

text \<open>
  The promise that \<^verbatim>\<open>fireEvent\<close> returns, where it returns one: \<open>None\<close> when it returns
  \<^verbatim>\<open>null\<close>, when the parser throws, and for an inherited member.
\<close>

definition promise_of ::
  "('b \<Rightarrow> DataEnvironment \<Rightarrow> val + val) \<Rightarrow> 'b fired \<Rightarrow> settled option" where
  "promise_of run f =
     (case f of
        ExecuteBlockPThrow block env \<Rightarrow> Some (ExecuteBlockPThrow_spec run block env)
      | ExecuteBlockP block env \<Rightarrow> Some (ExecuteBlockP_spec run block env)
      | _ \<Rightarrow> None)"

section \<open>Errors\<close>

text \<open>
  The conditions the modelled functions throw.  \<open>InvalidHandlerPath\<close>, \<open>ModuleNotFound\<close> and
  \<open>InvalidMethod\<close> carry the text that the source formats into the message.
\<close>

datatype error =
    InvalidCaret
  | InvalidRoot
  | InvalidHandlerPath "string option"
  | ModuleNotFound string
  | InvalidNullMethod
  | InvalidMethod string
  | InvalidFetchCall
  | InvalidURL string
  | BadFetchParams string
  | RegExpSyntaxError "string option"
  | CallbackError nat

section \<open>HibikiState\<close>

text \<open>
  Calls that leave the module are recorded in the order they happen: a \<^verbatim>\<open>forceRefresh()\<close> on
  a registered data node, together with the data roots as they are at that moment (what the
  callback can observe), and the run of an init callback.  Callbacks are identified by a
  number, data nodes by a name.
\<close>

datatype call =
    ForceRefresh string "val jsobj"
  | InitCallback nat

record DataNodeState =
  query :: string
  dnstate :: string

record HibikiState =
  Initialized :: bool
  InitCallbacks :: "nat list"
  HtmlObj :: val
  DataRoots :: "val jsobj"
  DataNodeStates :: "DataNodeState jsobj"
  calls :: "call list"

text \<open>
  \<^verbatim>\<open>setInitCallback\<close> (lines 1815-1822).  \<open>throws\<close> tells which callbacks throw; in the
  immediate branch the exception reaches the caller, after the callback ran.
\<close>

definition setInitCallback ::
  "(nat \<Rightarrow> bool) \<Rightarrow> nat \<Rightarrow> HibikiState \<Rightarrow> HibikiState \<times> error option" where
  "setInitCallback throws fn s =
     (if Initialized s then
        (s\<lparr>calls := calls s @ [InitCallback fn]\<rparr>,
         if throws fn then Some (CallbackError fn) else None)
      else (s\<lparr>InitCallbacks := InitCallbacks s @ [fn]\<rparr>, None))"

text \<open>
  \<^verbatim>\<open>setInitialized\<close> (lines 1824-1835): the loop calls every queued callback in order; an
  exception is caught and logged, and the loop goes on.  The queue is left as it is.
\<close>

fun runInitCallbacks :: "nat list \<Rightarrow> HibikiState \<Rightarrow> HibikiState" where
  "runInitCallbacks [] s = s"
| "runInitCallbacks (fn # fns) s = runInitCallbacks fns (s\<lparr>calls := calls s @ [InitCallback fn]\<rparr>)"

definition setInitialized :: "HibikiState \<Rightarrow> HibikiState" where
  "setInitialized s = runInitCallbacks (InitCallbacks s) (s\<lparr>Initialized := True\<rparr>)"

subsection \<open>Invalidation\<close>

text \<open>
  \<^verbatim>\<open>invalidateRegex\<close> (lines 2186-2195).  \<open>RegExp\<close> stands for \<^verbatim>\<open>new RegExp(queryReStr)\<close>: it
  gives the matcher of the pattern, or \<open>None\<close> where the constructor throws a SyntaxError.
\<close>

fun refreshMatching :: "(string \<Rightarrow> bool) \<Rightarrow> DataNodeState jsobj \<Rightarrow> HibikiState \<Rightarrow> HibikiState" where
  "refreshMatching m [] s = s"
| "refreshMatching m ((uuid, dnq) # rest) s =
     (if m (query dnq)
      then refreshMatching m rest (s\<lparr>calls := calls s @ [ForceRefresh (dnstate dnq) (DataRoots s)]\<rparr>)
      else refreshMatching m rest s)"

definition invalidateRegex ::
  "(string option \<Rightarrow> (string \<Rightarrow> bool) option) \<Rightarrow> string option \<Rightarrow> HibikiState
     \<Rightarrow> error + HibikiState" where
  "invalidateRegex RegExp queryReStr s =
     (case RegExp queryReStr of
        None \<Rightarrow> Inl (RegExpSyntaxError queryReStr)
      | Some queryRe \<Rightarrow> Inr (refreshMatching queryRe (DataNodeStates s) s))"

text \<open>\<^verbatim>\<open>invalidate\<close> (lines 2176-2184) and \<^verbatim>\<open>invalidateAll\<close> (lines 2197-2202).\<close>

definition invalidate :: "string \<Rightarrow> HibikiState \<Rightarrow> HibikiState" where
  "invalidate q s = refreshMatching (\<lambda>dq. dq = q) (DataNodeStates s) s"

definition invalidateAll :: "HibikiState \<Rightarrow> HibikiState" where
  "invalidateAll s = refreshMatching (\<lambda>dq. True) (DataNodeStates s) s"

subsection \<open>Actions\<close>

record HibikiAction =
  rr_type :: "string option"
  rr_selector :: "string option"
  rr_path :: "string option"
  rr_data :: val

text \<open>
  The functions of other modules that \<^verbatim>\<open>processActions\<close> calls:
  \<^verbatim>\<open>DataCtx.ApplySingleRRA(dataenv, rr)\<close> on the root scope, as the data roots after the call;
  \<^verbatim>\<open>DataCtx.BlobFromRRA(rr)\<close>; \<^verbatim>\<open>DataCtx.ExtBlobFromRRA(rtnval, rr)\<close>, as the blob after the call;
  \<^verbatim>\<open>parseHtml\<close> (\<open>VNull\<close> for \<^verbatim>\<open>null\<close>); and the \<^verbatim>\<open>RegExp\<close> constructor.
\<close>

record collaborators =
  ApplySingleRRA :: "HibikiAction \<Rightarrow> val jsobj \<Rightarrow> val jsobj"
  BlobFromRRA :: "HibikiAction \<Rightarrow> val"
  ExtBlobFromRRA :: "val \<Rightarrow> HibikiAction \<Rightarrow> val"
  parseHtml :: "val \<Rightarrow> val"
  RegExp :: "string option \<Rightarrow> (string \<Rightarrow> bool) option"

definition is_blob :: "val \<Rightarrow> bool" where
  "is_blob v = (case v of VBlob m d \<Rightarrow> True | _ \<Rightarrow> False)"

text \<open>
  The loop of \<^verbatim>\<open>processActions\<close> (lines 2062-2094), one action per step, with the return value
  accumulated so far.  An exception ends the loop; the state keeps what was done before.
\<close>

fun processActions_loop ::
  "collaborators \<Rightarrow> bool \<Rightarrow> HibikiAction list \<Rightarrow> val \<Rightarrow> HibikiState
     \<Rightarrow> HibikiState \<times> (error + val)" where
  "processActions_loop X pureRequest [] rtnval s = (s, Inr rtnval)"
| "processActions_loop X pureRequest (rr # rra) rtnval s =
     (let selector = (case rr_selector rr of Some sel \<Rightarrow> Some sel | None \<Rightarrow> rr_path rr) in
      if rr_type rr = Some ''setdata'' \<and> selector = Some ''@rtn'' then
        processActions_loop X pureRequest rra (rr_data rr) s
      else if rr_type rr = Some ''blob'' \<and> selector = Some ''@rtn'' then
        processActions_loop X pureRequest rra (BlobFromRRA X rr) s
      else if rr_type rr = Some ''blobext'' \<and> selector = Some ''@rtn'' then
        (if is_blob rtnval
         then processActions_loop X pureRequest rra (ExtBlobFromRRA X rtnval rr) s
         else processActions_loop X pureRequest rra rtnval s)
      else if pureRequest then
        processActions_loop X pureRequest rra rtnval s
      else
        (case (if rr_type rr = Some ''invalidate'' then invalidateRegex (RegExp X) selector s
               else if rr_type rr = Some ''html'' then
                 (let htmlObj = parseHtml X (rr_data rr) in
                  if is_nullish htmlObj then Inr s else Inr (s\<lparr>HtmlObj := htmlObj\<rparr>))
               else Inr s) of
           Inl e \<Rightarrow> (s, Inl e)
         | Inr s' \<Rightarrow>
             processActions_loop X pureRequest rra rtnval
               (s'\<lparr>DataRoots := ApplySingleRRA X rr (DataRoots s')\<rparr>)))"

text \<open>\<^verbatim>\<open>processActions\<close> (lines 2056-2096); \<open>None\<close> is a \<^verbatim>\<open>null\<close> action list.\<close>

definition processActions ::
  "collaborators \<Rightarrow> HibikiAction list option \<Rightarrow> bool \<Rightarrow> HibikiState
     \<Rightarrow> HibikiState \<times> (error + val)" where
  "processActions X rra pureRequest s =
     (case rra of
        None \<Rightarrow> (s, Inr VNull)
      | Some actions \<Rightarrow> processActions_loop X pureRequest actions VNull s)"

definition returnValueFromActions ::
  "collaborators \<Rightarrow> HibikiAction list option \<Rightarrow> HibikiState \<Rightarrow> HibikiState \<times> (error + val)" where
  "returnValueFromActions X rra s = processActions X rra True s"

definition runActions ::
  "collaborators \<Rightarrow> HibikiAction list option \<Rightarrow> HibikiState \<Rightarrow> HibikiState \<times> (error + val)" where
  "runActions X rra s = processActions X rra False s"

text \<open>
  Modelled from the spec: \<^verbatim>\<open>DataCtx.ApplySingleRRA\<close>, which lives in \<^verbatim>\<open>datactx.ts\<close>.  The spec
  says that the remaining actions are applied as direct state writes against the root scope
  and that an action of unknown kind is logged and skipped: a \<^verbatim>\<open>setdata\<close> action writes its
  data at its selector (or path), any other action changes nothing.
\<close>

definition ApplySingleRRA_spec :: "HibikiAction \<Rightarrow> val jsobj \<Rightarrow> val jsobj" where
  "ApplySingleRRA_spec rr roots =
     (if rr_type rr = Some ''setdata'' then
        (case (case rr_selector rr of Some sel \<Rightarrow> Some sel | None \<Rightarrow> rr_path rr) of
           None \<Rightarrow> roots
         | Some p \<Rightarrow> obj_set p (rr_data rr) roots)
      else roots)"

text \<open>The actions of the ordering example and of the capture example.\<close>

definition assign_action :: "string \<Rightarrow> val \<Rightarrow> HibikiAction" where
  "assign_action p v = \<lparr>rr_type = Some ''setdata'', rr_selector = None, rr_path = Some p, rr_data = v\<rparr>"

definition invalidate_action :: "string \<Rightarrow> HibikiAction" where
  "invalidate_action q =
     \<lparr>rr_type = Some ''invalidate'', rr_selector = Some q, rr_path = None, rr_data = VUndefined\<rparr>"

definition rtn_action :: "val \<Rightarrow> HibikiAction" where
  "rtn_action v =
     \<lparr>rr_type = Some ''setdata'', rr_selector = Some ''@rtn'', rr_path = None, rr_data = v\<rparr>"

section \<open>Handler paths and modules\<close>

text \<open>The character classes of the regular expression in \<^verbatim>\<open>parseHandler\<close>.\<close>

definition lowers :: string where
  "lowers = ''abcdefghijklmnopqrstuvwxyz''"

definition uppers :: string where
  "uppers = ''ABCDEFGHIJKLMNOPQRSTUVWXYZ''"

definition digits :: string where
  "digits = ''0123456789''"

definition is_letter :: "char \<Rightarrow> bool" where
  "is_letter c = (c \<in> set (lowers @ uppers))"

definition is_ns_start :: "char \<Rightarrow> bool" where
  "is_ns_start c = (c \<in> set (lowers @ uppers @ ''_''))"

definition is_ns_char :: "char \<Rightarrow> bool" where
  "is_ns_char c = (c \<in> set (lowers @ uppers @ digits @ ''_''))"

definition is_path_char :: "char \<Rightarrow> bool" where
  "is_path_char c = (c \<in> set (lowers @ uppers @ digits @ ''._/-''))"

definition is_frag_char :: "char \<Rightarrow> bool" where
  "is_frag_char c = (c \<in> set (lowers @ uppers @ digits @ ''_-''))"

record HandlerPathObj =
  ns :: "string option"
  path :: string
  pathfrag :: string

text \<open>
  The three groups of
  \<^verbatim>\<open>^(?:/@([a-zA-Z_][a-zA-Z0-9_]*))?(/[a-zA-Z0-9._/-]*)?(?:[:](@?[a-zA-Z][a-zA-Z0-9_-]*))?$\<close>,
  matched from the left.  Each group, where it can start, takes the longest run of its
  character class: the character after a group must begin the next group or end the input,
  and is in neither case of the class just left, so no shorter match can succeed.
  \<open>match_ns\<close> gives group 1 (if present) and the rest, \<open>match_path\<close> group 2 and the rest,
  \<open>match_frag\<close> group 3, or \<open>None\<close> when the rest is not an optional fragment.
\<close>

fun match_ns :: "string \<Rightarrow> string option \<times> string" where
  "match_ns (c1 # c2 # c3 # cs) =
     (if c1 = CHR ''/'' \<and> c2 = CHR ''@'' \<and> is_ns_start c3
      then (Some (c3 # takeWhile is_ns_char cs), dropWhile is_ns_char cs)
      else (None, c1 # c2 # c3 # cs))"
| "match_ns s = (None, s)"

fun match_path :: "string \<Rightarrow> string option \<times> string" where
  "match_path (c # cs) =
     (if c = CHR ''/''
      then (Some (c # takeWhile is_path_char cs), dropWhile is_path_char cs)
      else (None, c # cs))"
| "match_path [] = (None, [])"

fun frag_body :: "string \<Rightarrow> bool" where
  "frag_body (c # cs) = (is_letter c \<and> list_all is_frag_char cs)"
| "frag_body [] = False"

fun match_frag :: "string \<Rightarrow> string option option" where
  "match_frag [] = Some None"
| "match_frag (c # cs) =
     (if c = CHR '':'' then
        (if frag_body (case cs of [] \<Rightarrow> [] | d # ds \<Rightarrow> if d = CHR ''@'' then ds else d # ds)
         then Some (Some cs) else None)
      else None)"

text \<open>
  \<^verbatim>\<open>parseHandler\<close> (lines 2399-2408).  \<open>None\<close> is \<^verbatim>\<open>null\<close>.  An unmatched group is replaced by
  \<^verbatim>\<open>""\<close>, \<^verbatim>\<open>"/"\<close> and \<^verbatim>\<open>""\<close>, so the \<^verbatim>\<open>ns\<close> of a result is always a string.
\<close>

definition parseHandler :: "string option \<Rightarrow> HandlerPathObj option" where
  "parseHandler handlerPath =
     (case handlerPath of
        None \<Rightarrow> None
      | Some [] \<Rightarrow> None
      | Some (c # cs) \<Rightarrow>
          if c = CHR ''/'' then
            (case match_ns (c # cs) of
               (m1, rest1) \<Rightarrow>
                 (case match_path rest1 of
                    (m2, rest2) \<Rightarrow>
                      (case match_frag rest2 of
                         None \<Rightarrow> None
                       | Some m3 \<Rightarrow>
                           Some \<lparr>ns = Some (case m1 of None \<Rightarrow> '''' | Some n \<Rightarrow> n),
                                 path = (case m2 of None \<Rightarrow> ''/'' | Some p \<Rightarrow> p),
                                 pathfrag = (case m3 of None \<Rightarrow> '''' | Some f \<Rightarrow> f)\<rparr>)))
          else None)"

record RequestPath =
  req_module :: string
  req_path :: string
  req_pathfrag :: "string option"

record RequestType =
  rpath :: RequestPath
  rdata :: "val list option"
  pure :: bool

text \<open>
  \<^verbatim>\<open>callHandlerInternalAsync\<close> (lines 2099-2125), up to the call of the module: the rejection
  of the promise, or the module found and the request it is called with.  \<open>Modules\<close> is the
  module table of the state; module names are taken to differ from the inherited names.
\<close>

definition callHandlerInternalAsync ::
  "'m jsobj \<Rightarrow> string option \<Rightarrow> val list option \<Rightarrow> bool \<Rightarrow> error + ('m \<times> RequestType)" where
  "callHandlerInternalAsync Modules handlerPath handlerData pureRequest =
     (if handlerPath = None then Inl (InvalidHandlerPath None)
      else if handlerPath = Some '''' then Inl (InvalidHandlerPath None)
      else
        (case parseHandler handlerPath of
           None \<Rightarrow> Inl (InvalidHandlerPath handlerPath)
         | Some hpath \<Rightarrow>
             (let moduleName = (case ns hpath of None \<Rightarrow> ''default'' | Some n \<Rightarrow> n) in
              case map_of Modules moduleName of
                None \<Rightarrow> Inl (ModuleNotFound moduleName)
              | Some hmodule \<Rightarrow>
                  Inr (hmodule,
                       \<lparr>rpath = \<lparr>req_module = moduleName, req_path = path hpath,
                                 req_pathfrag = Some (pathfrag hpath)\<rparr>,
                        rdata = handlerData, pure = pureRequest\<rparr>))))"

subsection \<open>The fetch module\<close>

text \<open>\<^verbatim>\<open>VALID_METHODS\<close> (line 1146).\<close>

definition VALID_METHODS :: "bool jsobj" where
  "VALID_METHODS =
     [(''GET'', True), (''POST'', True), (''PUT'', True), (''PATCH'', True), (''DELETE'', True)]"

text \<open>
  \<^verbatim>\<open>String.prototype.toUpperCase\<close> on the letters a-z; every other character of a method name
  that the fragment grammar admits is left as it is.
\<close>

definition toUpperCase_char :: "char \<Rightarrow> char" where
  "toUpperCase_char c = (case map_of (zip lowers uppers) c of None \<Rightarrow> c | Some u \<Rightarrow> u)"

definition toUpperCase :: "string \<Rightarrow> string" where
  "toUpperCase s = map toUpperCase_char s"

text \<open>\<^verbatim>\<open>isObject\<close> of \<^verbatim>\<open>utils\<close>: a plain object, not an array.\<close>

definition is_object :: "val \<Rightarrow> bool" where
  "is_object v = (case v of VObj ps \<Rightarrow> True | _ \<Rightarrow> False)"

text \<open>
  \<^verbatim>\<open>FetchModule.callHandler\<close> (lines 1653-1676): the checks made before the request is built.
  \<open>URL\<close> stands for \<^verbatim>\<open>new URL(urlStr)\<close> (\<open>None\<close> where it throws).  The result is the
  normalized method, the parsed URL and the params.
\<close>

definition FetchModule_callHandler ::
  "(string \<Rightarrow> 'u option) \<Rightarrow> RequestType \<Rightarrow> error + (string \<times> 'u \<times> val)" where
  "FetchModule_callHandler URL req =
     (case req_pathfrag (rpath req) of
        None \<Rightarrow> Inl InvalidNullMethod
      | Some m \<Rightarrow>
          (let method = toUpperCase m in
           if map_of VALID_METHODS method = Some True then
             (let args = (case rdata req of None \<Rightarrow> [] | Some a \<Rightarrow> a);
                  urlStr = (case args of [] \<Rightarrow> VUndefined | u # _ \<Rightarrow> u);
                  params = (case args of u # p # _ \<Rightarrow> p | _ \<Rightarrow> VUndefined)
              in case urlStr of
                   VStr u \<Rightarrow>
                     (case URL u of
                        None \<Rightarrow> Inl (InvalidURL u)
                      | Some url \<Rightarrow>
                          if is_nullish params then Inr (method, url, params)
                          else if is_object params then Inr (method, url, params)
                          else Inl (BadFetchParams u))
                 | _ \<Rightarrow> Inl InvalidFetchCall)
           else Inl (InvalidMethod method)))"

section \<open>Root resolution\<close>

record ResolveOpts =
  caret :: "rat option"

text \<open>
  What \<^verbatim>\<open>resolveRoot\<close> returns: a value, the node-data map, a context proxy over a scope, a
  scope's \<^verbatim>\<open>specials\<close>, or one of the two stacks.
\<close>

datatype resolved =
    RValue val
  | RNodeDataMap
  | RContextProxy DataEnvironment
  | RSpecials "val jsobj"
  | RLocalStack "val list"
  | RContextStack "val jsobj list"

text \<open>
  \<^verbatim>\<open>unbox(this.dbstate.DataRoots[name])\<close>; an inherited member is not a boxed observable and
  is returned as it is.
\<close>

definition unbox_root :: "val jsobj \<Rightarrow> string \<Rightarrow> val" where
  "unbox_root roots name = js_get roots name"

text \<open>\<^verbatim>\<open>getComponentRoot\<close> (lines 1442-1450).\<close>

fun getComponentRoot :: "DataEnvironment \<Rightarrow> val" where
  "getComponentRoot (DataEnvironment par d s h os cr hc ds eb) =
     (case cr of
        Some c \<Rightarrow> c
      | None \<Rightarrow> (case par of None \<Rightarrow> VNull | Some p \<Rightarrow> getComponentRoot p))"

text \<open>
  The loop \<^verbatim>\<open>for (let i=0; i<opts.caret && ref != null; i++) ref = ref.parent\<close>, with
  \<open>i\<close> counted up from 0.
\<close>

function climb :: "rat \<Rightarrow> nat \<Rightarrow> DataEnvironment option \<Rightarrow> DataEnvironment option" where
  "climb c i ref =
     (case ref of
        None \<Rightarrow> None
      | Some e \<Rightarrow> if of_nat i < c then climb c (Suc i) (parent e) else Some e)"
  by pat_completeness auto
termination
proof (relation "measure (\<lambda>(c, i, ref). case ref of None \<Rightarrow> 0 | Some e \<Rightarrow> size e)")
  show "wf (measure (\<lambda>(c, i, ref). case ref of None \<Rightarrow> 0 | Some e \<Rightarrow> size e))" by simp
next
  fix c :: rat and i :: nat and ref :: "DataEnvironment option" and e :: DataEnvironment
  assume "ref = Some e"
  then show "((c, Suc i, parent e), (c, i, ref))
               \<in> measure (\<lambda>(c, i, ref). case ref of None \<Rightarrow> 0 | Some e \<Rightarrow> size e)"
    by (cases e) (auto split: option.splits)
qed

text \<open>
  \<^verbatim>\<open>resolveRoot\<close> (lines 1244-1310).  The guard of line 1246 reads
  \<^verbatim>\<open>(caret != null && caret < 0) || caret > 1\<close>; an absent caret fails both comparisons.  A
  caret is truthy exactly when it is present and not 0 (\<open>c\<close> is the caret as a number, 0
  when absent).  Indexing the local stack with a number that is not an index gives
  \<^verbatim>\<open>undefined\<close>.  \<^verbatim>\<open>rootName in this.dbstate.DataRoots\<close> is true for own and for inherited
  names.
\<close>

definition resolveRoot ::
  "val jsobj \<Rightarrow> DataEnvironment \<Rightarrow> string \<Rightarrow> ResolveOpts option \<Rightarrow> error + resolved" where
  "resolveRoot roots this rootName opts =
     (let crt = (case opts of None \<Rightarrow> None | Some os \<Rightarrow> caret os);
          c = (case crt of None \<Rightarrow> 0 | Some n \<Rightarrow> n);
          truthy = (c \<noteq> 0)
      in
      if (case crt of None \<Rightarrow> False | Some n \<Rightarrow> if n < 0 then True else 1 < n) then Inl InvalidCaret
      else if rootName = ''global'' then Inr (RValue (unbox_root roots ''global''))
      else if rootName = ''data'' then Inr (RValue (unbox_root roots ''global''))
      else if rootName = ''state'' then Inr (RValue (unbox_root roots ''state''))
      else if rootName = ''local'' then
        (if truthy then
           (let localstack = getLocalStack this in
            if of_nat (length localstack) \<le> c then Inr (RValue VNull)
            else if c = of_int \<lfloor>c\<rfloor> then Inr (RValue (localstack ! nat \<lfloor>c\<rfloor>))
            else Inr (RValue VUndefined))
         else Inr (RValue (data this)))
      else if rootName = ''null'' then Inr (RValue VNull)
      else if rootName = ''nodedata'' then Inr RNodeDataMap
      else if rootName = ''context'' then
        (case (if truthy then climb c 0 (Some this) else Some this) of
           None \<Rightarrow> Inr (RValue VNull)
         | Some ref \<Rightarrow> Inr (RContextProxy ref))
      else if rootName = ''currentcontext'' then
        (case (if truthy then climb c 0 (Some this) else Some this) of
           None \<Rightarrow> Inr (RValue VNull)
         | Some ref \<Rightarrow> Inr (RSpecials (specials ref)))
      else if rootName = ''localstack'' then Inr (RLocalStack (getLocalStack this))
      else if rootName = ''contextstack'' then Inr (RContextStack (getContextStack this))
      else if rootName = ''c'' then Inr (RValue (getComponentRoot this))
      else if rootName = ''component'' then Inr (RValue (getComponentRoot this))
      else if js_in rootName roots then Inr (RValue (unbox_root roots rootName))
      else Inl InvalidRoot)"

text \<open>The root names that \<^verbatim>\<open>resolveRoot\<close> knows by itself.\<close>

definition well_known_roots :: "string list" where
  "well_known_roots =
     [''global'', ''data'', ''state'', ''local'', ''null'', ''nodedata'', ''context'',
      ''currentcontext'', ''localstack'', ''contextstack'', ''c'', ''component'']"

text \<open>A \<^verbatim>\<open>RegExp\<close> for patterns without metacharacters: the pattern occurs in the string.\<close>

fun occurs_in :: "string \<Rightarrow> string \<Rightarrow> bool" where
  "occurs_in pat [] = (pat = [])"
| "occurs_in pat (c # cs) = (if startsWith (c # cs) pat then True else occurs_in pat cs)"

definition RegExp_literal :: "string option \<Rightarrow> (string \<Rightarrow> bool) option" where
  "RegExp_literal p = (case p of None \<Rightarrow> Some (\<lambda>s. True) | Some pat \<Rightarrow> Some (occurs_in pat))"

text \<open>
  Collaborators for the examples: the spec's \<^verbatim>\<open>ApplySingleRRA\<close>, blobs built from the action's
  data, an html parser that returns its input, literal patterns.
\<close>

definition example_collaborators :: collaborators where
  "example_collaborators =
     \<lparr>ApplySingleRRA = ApplySingleRRA_spec,
      BlobFromRRA = (\<lambda>rr. VBlob ''application/octet-stream'' ''''),
      ExtBlobFromRRA = (\<lambda>b rr. b),
      parseHtml = (\<lambda>v. v),
      RegExp = RegExp_literal\<rparr>"

text \<open>A state with one data node registered against the query \<^verbatim>\<open>q\<close>.\<close>

definition example_state :: HibikiState where
  "example_state =
     \<lparr>Initialized = True, InitCallbacks = [], HtmlObj = VNull, DataRoots = [],
      DataNodeStates = [(''uuid-1'', \<lparr>query = ''q'', dnstate = ''node-1''\<rparr>)],
      calls = []\<rparr>"

text \<open>An action whose selector (or path) is the reserved \<^verbatim>\<open>"@rtn"\<close>.\<close>

definition is_rtn_action :: "HibikiAction \<Rightarrow> bool" where
  "is_rtn_action rr =
     ((case rr_selector rr of Some sel \<Rightarrow> Some sel | None \<Rightarrow> rr_path rr) = Some ''@rtn'')"

text \<open>The scopes of the boundary example: root (hard), mid (soft, a click handler), leaf.\<close>

definition click_handler :: HandlerValType where
  "click_handler = \<lparr>handlerStr = ''onclick'', node = ''div''\<rparr>"

definition scope_root :: DataEnvironment where
  "scope_root =
     new_DataEnvironment VNull
       (Some \<lparr>opt_componentRoot = None, opt_description = None, opt_handlers = None,
              opt_htmlContext = Some ''<root>'', opt_eventBoundary = Some ''hard''\<rparr>)"

definition scope_mid :: DataEnvironment where
  "scope_mid =
     makeChildEnv scope_root VNull None
       (Some \<lparr>opt_componentRoot = None, opt_description = None,
              opt_handlers = Some [(''click'', click_handler)],
              opt_htmlContext = Some ''<mid>'', opt_eventBoundary = Some ''soft''\<rparr>)"

definition scope_leaf :: DataEnvironment where
  "scope_leaf = makeChildEnv scope_mid VNull None None"

text \<open>
  Two nested hard boundaries: the outer one handles \<^verbatim>\<open>load\<close>, \<^verbatim>\<open>xready\<close> and \<^verbatim>\<open>change\<close>, the
  inner one has no handler.
\<close>

definition scope_outer :: DataEnvironment where
  "scope_outer =
     new_DataEnvironment VNull
       (Some \<lparr>opt_componentRoot = None, opt_description = None,
              opt_handlers = Some [(''load'', \<lparr>handlerStr = ''onload'', node = ''body''\<rparr>),
                                   (''xready'', \<lparr>handlerStr = ''onxready'', node = ''body''\<rparr>),
                                   (''change'', \<lparr>handlerStr = ''onchange'', node = ''body''\<rparr>)],
              opt_htmlContext = Some ''<outer>'', opt_eventBoundary = Some ''hard''\<rparr>)"

definition scope_inner :: DataEnvironment where
  "scope_inner =
     makeChildEnv scope_outer VNull None
       (Some \<lparr>opt_componentRoot = None, opt_description = None, opt_handlers = None,
              opt_htmlContext = Some ''<inner>'', opt_eventBoundary = Some ''hard''\<rparr>)"

text \<open>A third hard boundary without handlers, inside the inner one, and a scope inside it.\<close>

definition scope_deep :: DataEnvironment where
  "scope_deep =
     makeChildEnv scope_inner VNull None
       (Some \<lparr>opt_componentRoot = None, opt_description = None, opt_handlers = None,
              opt_htmlContext = Some ''<deep>'', opt_eventBoundary = Some ''hard''\<rparr>)"

definition scope_deep_leaf :: DataEnvironment where
  "scope_deep_leaf = makeChildEnv scope_deep VNull None None"

text \<open>The html context that \<^verbatim>\<open>fireEvent\<close> gives the scope the handler runs in.\<close>

definition event_opts :: "EventType \<Rightarrow> DataEnvironmentOpts" where
  "event_opts ev =
     \<lparr>opt_componentRoot = None, opt_description = None, opt_handlers = None,
      opt_htmlContext =
        Some (''event'' @ (if bubble ev then ''-bubble'' else '''') @ ''('' @ event ev @ '')''),
      opt_eventBoundary = None\<rparr>"

section \<open>Objects and scope lookup\<close>

lemma map_of_obj_set: "map_of (obj_set k v ps) = (map_of ps)(k \<mapsto> v)"
  by (induction ps) auto

text \<open>On objects with one entry per key, \<^verbatim>\<open>Object.assign\<close> overrides the target's properties.\<close>

lemma map_of_Object_assign:
  "distinct (map fst src) \<Longrightarrow> map_of (Object_assign t src) = map_of t ++ map_of src"
  unfolding Object_assign_def
proof (induction src arbitrary: t)
  case Nil
  show ?case by simp
next
  case (Cons p src)
  obtain k v where p: "p = (k, v)" by (cases p)
  from Cons.prems have d: "distinct (map fst src)" and k: "map_of src k = None"
    by (auto simp: p map_of_eq_None_iff)
  have "map_of (fold (\<lambda>(k, v). obj_set k v) (p # src) t)
          = map_of (obj_set k v t) ++ map_of src"
    using Cons.IH [OF d, of "obj_set k v t"] by (simp add: p)
  also have "\<dots> = map_of t ++ map_of (p # src)"
    using k by (intro ext) (simp add: p map_of_obj_set map_add_def split: option.splits)
  finally show ?case .
qed

lemma squash_child:
  "getSquashedContext (DataEnvironment (Some p) d s h os cr hc ds eb)
     = Object_assign (getSquashedContext p) s"
  by (simp add: getSquashedContext_def)

lemma squash_root:
  "getSquashedContext (DataEnvironment None d s h os cr hc ds eb) = Object_assign [] s"
  by (simp add: getSquashedContext_def)

lemma contextKey_squashed:
  "list_all (\<lambda>s. distinct (map fst s)) (getContextStack env) \<Longrightarrow>
   getContextKey env k = (case map_of (getSquashedContext env) k of None \<Rightarrow> VNull | Some v \<Rightarrow> v)"
proof (induction env k rule: getContextKey.induct)
  case (1 par d s h os cr hc ds eb k)
  show ?case
  proof (cases par)
    case None
    with 1 show ?thesis
      by (simp add: squash_root map_of_Object_assign split: option.splits)
  next
    case (Some p)
    with 1 show ?thesis
      by (simp add: squash_child map_of_Object_assign map_add_def split: option.splits)
  qed
qed

text \<open>
  Claim C6.  On the chain A -> B -> C with specials \<^verbatim>\<open>{x:1, y:2}\<close>, \<^verbatim>\<open>{}\<close> and \<^verbatim>\<open>{x:3}\<close>,
  \<^verbatim>\<open>getSquashedContext()\<close> on C is \<^verbatim>\<open>{x:3, y:2}\<close>, and \<^verbatim>\<open>getContextKey("x")\<close> is 3 from C and 1
  from B; a key that no scope defines gives \<^verbatim>\<open>null\<close>.  In general the shadow lookup of a key
  and the lookup of the key in the squashed context agree: the nearest definition wins in
  both.
\<close>

theorem squashed_context_example:
  "getContextStack scopeC = [[(''x'', VNum 3)], [], [(''x'', VNum 1), (''y'', VNum 2)]]
   \<and> getSquashedContext scopeC = [(''x'', VNum 3), (''y'', VNum 2)]
   \<and> getContextKey scopeC ''x'' = VNum 3
   \<and> getContextKey scopeB ''x'' = VNum 1
   \<and> getContextKey scopeC ''z'' = VNull
   \<and> (list_all (\<lambda>s. distinct (map fst s)) (getContextStack env) \<longrightarrow>
        getContextKey env k
          = (case map_of (getSquashedContext env) k of None \<Rightarrow> VNull | Some v \<Rightarrow> v))"
proof -
  have st: "getContextStack scopeC = [[(''x'', VNum 3)], [], [(''x'', VNum 1), (''y'', VNum 2)]]"
    by (simp add: scopeC_def scopeB_def scopeA_def makeChildEnv_def new_DataEnvironment_def
        Object_assign_def)
  have sq: "getSquashedContext scopeC = [(''x'', VNum 3), (''y'', VNum 2)]"
    by (simp add: getSquashedContext_def st Object_assign_def)
  have c: "getContextKey scopeC ''x'' = VNum 3" "getContextKey scopeC ''z'' = VNull"
    by (simp_all add: scopeC_def scopeB_def scopeA_def makeChildEnv_def new_DataEnvironment_def
        Object_assign_def)
  have b: "getContextKey scopeB ''x'' = VNum 1"
    by (simp add: scopeB_def scopeA_def makeChildEnv_def new_DataEnvironment_def
        Object_assign_def)
  show ?thesis using st sq c b contextKey_squashed by blast
qed

theorem squashed_context_example_witness:
  "list_all (\<lambda>s. distinct (map fst s)) (getContextStack scopeC)
   \<and> getContextKey scopeC ''y'' = VNum 2
   \<and> map_of (getSquashedContext scopeC) ''y'' = Some (VNum 2)"
proof -
  have st: "getContextStack scopeC = [[(''x'', VNum 3)], [], [(''x'', VNum 1), (''y'', VNum 2)]]"
    using squashed_context_example by blast
  have sq: "getSquashedContext scopeC = [(''x'', VNum 3), (''y'', VNum 2)]"
    using squashed_context_example by blast
  have d: "list_all (\<lambda>s. distinct (map fst s)) (getContextStack scopeC)"
    by (simp add: st)
  show ?thesis
    using squashed_context_example [of scopeC "''y''"] d by (simp add: sq)
qed

section \<open>Action batches\<close>

text \<open>A sweep calls \<^verbatim>\<open>forceRefresh\<close> on every matching entry, in registry order, and changes nothing else.\<close>

lemma refreshMatching_calls:
  "refreshMatching m regs s
     = s\<lparr>calls := calls s @ map (\<lambda>d. ForceRefresh (dnstate d) (DataRoots s))
                               (filter (\<lambda>d. m (query d)) (map snd regs))\<rparr>"
  by (induction regs arbitrary: s) auto

lemma pure_loop_state:
  "fst (processActions_loop X True rra rtnval s) = s"
  by (induction rra arbitrary: rtnval) (auto simp: Let_def)

lemma pure_loop_filter:
  "processActions_loop X True rra rtnval s
     = processActions_loop X True (filter is_rtn_action rra) rtnval s"
  by (induction rra arbitrary: rtnval) (auto simp: Let_def is_rtn_action_def)

text \<open>
  Claim C4.  In capture-only mode the batch \<^verbatim>\<open>[setdata(selector="@rtn", data=5), invalidate(q)]\<close>
  returns 5 and leaves the state as it was: no refresh callback runs and nothing is written.
  For every batch the state is unchanged, and only the actions with the \<^verbatim>\<open>"@rtn"\<close> selector
  count: removing all others from the batch gives the same result.
\<close>

theorem capture_only:
  "processActions X (Some [rtn_action (VNum 5), invalidate_action q]) True s = (s, Inr (VNum 5))
   \<and> fst (processActions X rra True s) = s
   \<and> processActions X (Some actions) True s
       = processActions X (Some (filter is_rtn_action actions)) True s"
proof -
  have "processActions X (Some [rtn_action (VNum 5), invalidate_action q]) True s
          = (s, Inr (VNum 5))"
    by (simp add: processActions_def rtn_action_def invalidate_action_def)
  moreover have "fst (processActions X rra True s) = s"
    by (cases rra) (simp_all add: processActions_def pure_loop_state)
  moreover have "processActions X (Some actions) True s
       = processActions X (Some (filter is_rtn_action actions)) True s"
    using pure_loop_filter [of X actions VNull s] by (simp add: processActions_def)
  ultimately show ?thesis by blast
qed

text \<open>
  Claim C1, as the code has it.  For the batch \<^verbatim>\<open>[assign(a, v1), invalidate(q), assign(a, v2)]\<close>
  with \<^verbatim>\<open>captureOnly\<close> unset, the actions are applied in list order: the refresh callback of
  every registered query matching \<^verbatim>\<open>q\<close> is called during the invalidate action, in registry
  order, and the data it can observe at that moment is the data after the first assign only
  (\<^verbatim>\<open>a == v1\<close>); the second assign is applied afterwards.
\<close>

theorem refresh_in_list_order:
  assumes re: "RegExp X (Some q) = Some m" and a: "a \<noteq> ''@rtn''"
  shows "processActions X (Some [assign_action a v1, invalidate_action q, assign_action a v2]) False s
           = (s\<lparr>DataRoots :=
                   ApplySingleRRA X (assign_action a v2)
                     (ApplySingleRRA X (invalidate_action q)
                        (ApplySingleRRA X (assign_action a v1) (DataRoots s))),
                 calls := calls s @
                   map (\<lambda>d. ForceRefresh (dnstate d) (ApplySingleRRA X (assign_action a v1) (DataRoots s)))
                       (filter (\<lambda>d. m (query d)) (map snd (DataNodeStates s)))\<rparr>,
              Inr VNull)
         \<and> map_of (ApplySingleRRA_spec (assign_action a v1) (DataRoots s)) a = Some v1"
proof -
  have "map_of (ApplySingleRRA_spec (assign_action a v1) (DataRoots s)) a = Some v1"
    by (simp add: ApplySingleRRA_spec_def assign_action_def map_of_obj_set)
  moreover have "processActions X (Some [assign_action a v1, invalidate_action q, assign_action a v2]) False s
           = (s\<lparr>DataRoots :=
                   ApplySingleRRA X (assign_action a v2)
                     (ApplySingleRRA X (invalidate_action q)
                        (ApplySingleRRA X (assign_action a v1) (DataRoots s))),
                 calls := calls s @
                   map (\<lambda>d. ForceRefresh (dnstate d) (ApplySingleRRA X (assign_action a v1) (DataRoots s)))
                       (filter (\<lambda>d. m (query d)) (map snd (DataNodeStates s)))\<rparr>,
              Inr VNull)"
    using re a
    by (simp add: processActions_def assign_action_def invalidate_action_def invalidateRegex_def
        refreshMatching_calls Let_def)
  ultimately show ?thesis by blast
qed

theorem refresh_in_list_order_witness:
  "RegExp example_collaborators (Some ''q'') = Some (occurs_in ''q'') \<and> ''a'' \<noteq> ''@rtn''
   \<and> processActions example_collaborators
        (Some [assign_action ''a'' (VNum 1), invalidate_action ''q'', assign_action ''a'' (VNum 2)])
        False example_state
       = (example_state\<lparr>DataRoots := [(''a'', VNum 2)],
                        calls := [ForceRefresh ''node-1'' [(''a'', VNum 1)]]\<rparr>, Inr VNull)"
proof -
  have re: "RegExp example_collaborators (Some ''q'') = Some (occurs_in ''q'')"
    by (simp add: example_collaborators_def RegExp_literal_def)
  have a: "''a'' \<noteq> ''@rtn''" by simp
  show ?thesis
    using refresh_in_list_order [OF re a, of "VNum 1" "VNum 2" example_state] re
    by (simp add: example_collaborators_def example_state_def ApplySingleRRA_spec_def
        assign_action_def invalidate_action_def startsWith_def)
qed

text \<open>
  With \<^verbatim>\<open>a = 1\<close> then \<^verbatim>\<open>a = 2\<close>, the callback of the query registered against \<^verbatim>\<open>q\<close> runs while
  \<^verbatim>\<open>a\<close> is 1, not 2.
\<close>

theorem refresh_observes_counterexample:
  "calls (fst (processActions example_collaborators
        (Some [assign_action ''a'' (VNum 1), invalidate_action ''q'', assign_action ''a'' (VNum 2)])
        False example_state))
     = [ForceRefresh ''node-1'' [(''a'', VNum 1)]]
   \<and> calls (fst (processActions example_collaborators
        (Some [assign_action ''a'' (VNum 1), invalidate_action ''q'', assign_action ''a'' (VNum 2)])
        False example_state))
     \<noteq> [ForceRefresh ''node-1'' [(''a'', VNum 2)]]"
  by (simp add: processActions_def example_collaborators_def example_state_def
      ApplySingleRRA_spec_def assign_action_def invalidate_action_def invalidateRegex_def
      RegExp_literal_def startsWith_def)

section \<open>Event boundaries and bubbling\<close>

text \<open>The example scopes, field by field.\<close>

lemma scope_root_eq:
  "scope_root = DataEnvironment None VNull [] [] False None (Some ''<root>'') None (Some hard)"
  by (simp add: scope_root_def new_DataEnvironment_def)

lemma scope_mid_eq:
  "scope_mid = DataEnvironment (Some scope_root) VNull [] [(''click'', click_handler)] False None
                 (Some ''<mid>'') None (Some soft)"
  by (simp add: scope_mid_def makeChildEnv_def new_DataEnvironment_def Object_assign_def)

lemma scope_leaf_eq:
  "scope_leaf = DataEnvironment (Some scope_mid) VNull [] [] False None None None None"
  by (simp add: scope_leaf_def makeChildEnv_def new_DataEnvironment_def Object_assign_def)

lemma boundary_click: "getEventBoundary scope_leaf (Some ''click'') = Some scope_mid"
  by (simp add: scope_leaf_eq scope_mid_eq js_in_def has_key_def)

lemma boundary_hover: "getEventBoundary scope_leaf (Some ''hover'') = Some scope_root"
  by (simp add: scope_leaf_eq scope_mid_eq scope_root_eq js_in_def has_key_def
      Object_prototype_names_def)

lemma handlers_mid: "handlers scope_mid = [(''click'', click_handler)]"
  by (simp add: scope_mid_eq)

lemma handlers_root: "handlers scope_root = []" "parent scope_root = None"
  by (simp_all add: scope_root_eq)

text \<open>
  Claim C5, as the code has it.  On the chain root (hard) -> mid (soft, a \<^verbatim>\<open>click\<close> handler) ->
  leaf: firing \<^verbatim>\<open>click\<close> from leaf resolves the boundary to mid and runs mid's handler (or
  fails in parsing it); firing \<^verbatim>\<open>hover\<close> from leaf resolves past mid to root, with the bubble
  flag set and with it unset.  In both cases no handler runs there and the call returns
  \<^verbatim>\<open>null\<close> with the runtime context untouched: on this chain the event is not reported as
  unhandled.
\<close>

theorem boundary_resolution:
  "getEventBoundary scope_leaf (Some ''click'') = Some scope_mid
   \<and> snd (fireEvent P scope_leaf \<lparr>event = ''click'', bubble = b, datacontext = dc\<rparr> rtctx t)
       = (case P (handlerStr click_handler) of
            None \<Rightarrow> ParseBlockFailed (handlerStr click_handler)
          | Some block \<Rightarrow>
              if t then ExecuteBlockPThrow block
                          (makeSpecialChildEnv scope_mid dc
                             (Some (event_opts \<lparr>event = ''click'', bubble = b, datacontext = dc\<rparr>)))
              else ExecuteBlockP block
                          (makeSpecialChildEnv scope_mid dc
                             (Some (event_opts \<lparr>event = ''click'', bubble = b, datacontext = dc\<rparr>))))
   \<and> getEventBoundary scope_leaf (Some ''hover'') = Some scope_root
   \<and> fireEvent P scope_leaf \<lparr>event = ''hover'', bubble = b, datacontext = dc\<rparr> rtctx t
       = (rtctx, NotDispatched)"
proof -
  have click: "snd (fireEvent P scope_leaf \<lparr>event = ''click'', bubble = b, datacontext = dc\<rparr> rtctx t)
       = (case P (handlerStr click_handler) of
            None \<Rightarrow> ParseBlockFailed (handlerStr click_handler)
          | Some block \<Rightarrow>
              if t then ExecuteBlockPThrow block
                          (makeSpecialChildEnv scope_mid dc
                             (Some (event_opts \<lparr>event = ''click'', bubble = b, datacontext = dc\<rparr>)))
              else ExecuteBlockP block
                          (makeSpecialChildEnv scope_mid dc
                             (Some (event_opts \<lparr>event = ''click'', bubble = b, datacontext = dc\<rparr>))))"
    by (simp add: boundary_click handlers_mid event_opts_def Let_def js_in_def has_key_def
        split: option.splits)
  have hover: "fireEvent P scope_leaf \<lparr>event = ''hover'', bubble = b, datacontext = dc\<rparr> rtctx t
       = (rtctx, NotDispatched)"
    by (simp add: boundary_hover handlers_root js_in_def has_key_def Object_prototype_names_def)
  show ?thesis using boundary_click boundary_hover click hover by blast
qed

text \<open>
  With \<^verbatim>\<open>bubble = false\<close> the \<^verbatim>\<open>hover\<close> event has the boundary root and is dropped there: the
  result is not the unhandled-event report.
\<close>

theorem unhandled_report_counterexample:
  "getEventBoundary scope_leaf (Some ''hover'') = Some scope_root
   \<and> fireEvent (\<lambda>src. Some src) scope_leaf
        \<lparr>event = ''hover'', bubble = False, datacontext = None\<rparr> [] False
       = ([], NotDispatched)
   \<and> snd (fireEvent (\<lambda>src. Some src) scope_leaf
        \<lparr>event = ''hover'', bubble = False, datacontext = None\<rparr> [] False)
       \<noteq> Unhandled (unhandledEvent \<lparr>event = ''hover'', bubble = False, datacontext = None\<rparr>)"
  by (simp add: boundary_hover handlers_root js_in_def has_key_def Object_prototype_names_def)

lemma scope_outer_eq:
  "scope_outer = DataEnvironment None VNull []
     [(''load'', \<lparr>handlerStr = ''onload'', node = ''body''\<rparr>),
      (''xready'', \<lparr>handlerStr = ''onxready'', node = ''body''\<rparr>),
      (''change'', \<lparr>handlerStr = ''onchange'', node = ''body''\<rparr>)]
     False None (Some ''<outer>'') None (Some hard)"
  by (simp add: scope_outer_def new_DataEnvironment_def)

lemma scope_inner_eq:
  "scope_inner = DataEnvironment (Some scope_outer) VNull [] [] False None (Some ''<inner>'') None
     (Some hard)"
  by (simp add: scope_inner_def makeChildEnv_def new_DataEnvironment_def Object_assign_def)

lemma boundary_inner: "getEventBoundary scope_inner ev = Some scope_inner"
  by (simp add: scope_inner_eq)

lemma boundary_outer: "getEventBoundary scope_outer ev = Some scope_outer"
  by (simp add: scope_outer_eq)

lemma inner_fields: "handlers scope_inner = []" "parent scope_inner = Some scope_outer"
  by (simp_all add: scope_inner_eq)

lemma outer_handlers:
  "handlers scope_outer = [(''load'', \<lparr>handlerStr = ''onload'', node = ''body''\<rparr>),
      (''xready'', \<lparr>handlerStr = ''onxready'', node = ''body''\<rparr>),
      (''change'', \<lparr>handlerStr = ''onchange'', node = ''body''\<rparr>)]"
  by (simp add: scope_outer_eq)

text \<open>
  Claim C8, at a failing input.  \<^verbatim>\<open>eventBubbles\<close> says that \<^verbatim>\<open>load\<close> and \<^verbatim>\<open>xready\<close> do not
  bubble, but \<^verbatim>\<open>fireEvent\<close> reads only the event's own flag: fired with \<^verbatim>\<open>bubble = true\<close> at
  the inner boundary, which has no handler for them, both events reach the parent boundary
  and run its handler.
\<close>

theorem exempt_events_bubble:
  "eventBubbles ''load'' = False
   \<and> eventBubbles ''xready'' = False
   \<and> getEventBoundary scope_inner (Some ''load'') = Some scope_inner
   \<and> map_of (handlers scope_inner) ''load'' = None
   \<and> snd (fireEvent (\<lambda>src. Some src) scope_inner
            \<lparr>event = ''load'', bubble = True, datacontext = None\<rparr> [] False)
       = ExecuteBlockP ''onload''
           (makeSpecialChildEnv scope_outer None
              (Some (event_opts \<lparr>event = ''load'', bubble = True, datacontext = None\<rparr>)))
   \<and> snd (fireEvent (\<lambda>src. Some src) scope_inner
            \<lparr>event = ''xready'', bubble = True, datacontext = None\<rparr> [] False)
       = ExecuteBlockP ''onxready''
           (makeSpecialChildEnv scope_outer None
              (Some (event_opts \<lparr>event = ''xready'', bubble = True, datacontext = None\<rparr>)))"
  by (simp add: eventBubbles_def startsWith_def boundary_inner boundary_outer inner_fields
      outer_handlers event_opts_def js_in_def has_key_def Object_prototype_names_def)

text \<open>One step of bubbling: the call on the parent is made without \<^verbatim>\<open>throwErrors\<close>.\<close>

lemma fireEvent_bubble_step:
  assumes "getEventBoundary this (Some (event ev)) = Some env"
    and "\<not> js_in (event ev) (handlers env)"
    and "bubble ev"
    and "parent env = Some p"
  shows "fireEvent P this ev rtctx t = fireEvent P p ev rtctx False"
  using assms by (subst fireEvent.simps) simp

text \<open>A boundary that has the handler runs it, through the executor that the flag selects.\<close>

lemma fireEvent_handler:
  assumes "getEventBoundary this (Some (event ev)) = Some env"
    and "map_of (handlers env) (event ev) = Some hval"
    and "P (handlerStr hval) = Some block"
  shows "fireEvent P this ev rtctx t
           = (rtctx @ [RunningHandler (node hval) (event ev) (getFullHtmlContext env)],
              if t then ExecuteBlockPThrow block
                          (makeSpecialChildEnv env (datacontext ev) (Some (event_opts ev)))
              else ExecuteBlockP block
                          (makeSpecialChildEnv env (datacontext ev) (Some (event_opts ev))))"
  using assms
  by (subst fireEvent.simps) (simp add: js_in_def has_key_def event_opts_def Let_def)

lemma eventBoundaries_Nil:
  "eventBoundaries this name = [] \<longleftrightarrow> getEventBoundary this (Some name) = None"
  by (subst eventBoundaries.simps) (simp split: option.splits)

lemma eventBoundaries_Cons:
  assumes "eventBoundaries this name = b # bs"
  shows "getEventBoundary this (Some name) = Some b
         \<and> bs = (case parent b of None \<Rightarrow> [] | Some p \<Rightarrow> eventBoundaries p name)"
  using assms by (subst (asm) eventBoundaries.simps) (simp split: option.splits)

text \<open>
  Without \<^verbatim>\<open>throwErrors\<close>, a bubbling event runs the handler of the first boundary on its way
  that has one, through \<^verbatim>\<open>ExecuteBlockP\<close>.
\<close>

lemma fireEvent_first_handler:
  assumes "eventBoundaries this (event ev) = bs @ target # rest"
    and "list_all (\<lambda>b. \<not> js_in (event ev) (handlers b)) bs"
    and "bubble ev"
    and "map_of (handlers target) (event ev) = Some hval"
    and "P (handlerStr hval) = Some block"
  shows "fireEvent P this ev rtctx False
           = (rtctx @ [RunningHandler (node hval) (event ev) (getFullHtmlContext target)],
              ExecuteBlockP block
                (makeSpecialChildEnv target (datacontext ev) (Some (event_opts ev))))"
  using assms(1,2)
proof (induction bs arbitrary: this)
  case Nil
  then have "getEventBoundary this (Some (event ev)) = Some target"
    using eventBoundaries_Cons [of this "event ev" target rest] by simp
  with assms(4,5) show ?case
    using fireEvent_handler [where P = P and this = this and ev = ev and env = target
        and hval = hval and block = block and rtctx = rtctx and t = False]
    by simp
next
  case (Cons b bs)
  from Cons.prems(1) have b: "getEventBoundary this (Some (event ev)) = Some b"
    and tl: "bs @ target # rest
               = (case parent b of None \<Rightarrow> [] | Some p \<Rightarrow> eventBoundaries p (event ev))"
    using eventBoundaries_Cons [of this "event ev" b "bs @ target # rest"] by simp_all
  from tl obtain p where p: "parent b = Some p"
    and chain: "eventBoundaries p (event ev) = bs @ target # rest"
    by (cases "parent b") auto
  from Cons.prems(2) have nb: "\<not> js_in (event ev) (handlers b)"
    and rest: "list_all (\<lambda>b. \<not> js_in (event ev) (handlers b)) bs"
    by simp_all
  have "fireEvent P this ev rtctx False = fireEvent P p ev rtctx False"
    by (rule fireEvent_bubble_step [OF b nb assms(3) p])
  with Cons.IH [OF chain rest] show ?case by simp
qed

text \<open>
  Claim C10.  An event is fired with \<^verbatim>\<open>throwErrors = true\<close> and bubbles: on its way out it
  meets one or more boundaries without a handler for it, then a boundary that has one.
  Then that outer handler is the one executed, in a scope made from that boundary, and it is
  executed through \<^verbatim>\<open>ExecuteBlockP\<close>, the catching executor, not through
  \<^verbatim>\<open>ExecuteBlockPThrow\<close>: the flag is not passed on.  So an error thrown by the handler is
  reported through the error-reporting path and does not reject the promise returned to the
  original caller.
\<close>

theorem bubbling_drops_throwErrors:
  assumes "eventBoundaries this (event ev) = bs @ target # rest"
    and "bs \<noteq> []"
    and "list_all (\<lambda>b. \<not> js_in (event ev) (handlers b)) bs"
    and "bubble ev"
    and "map_of (handlers target) (event ev) = Some hval"
    and "P (handlerStr hval) = Some block"
  shows "fireEvent P this ev rtctx True
           = (rtctx @ [RunningHandler (node hval) (event ev) (getFullHtmlContext target)],
              ExecuteBlockP block
                (makeSpecialChildEnv target (datacontext ev) (Some (event_opts ev))))
         \<and> promise_of run (snd (fireEvent P this ev rtctx True))
             = Some (case run block
                            (makeSpecialChildEnv target (datacontext ev) (Some (event_opts ev))) of
                       Inl err \<Rightarrow> ReportedNotRejected err
                     | Inr v \<Rightarrow> Fulfilled v)"
proof -
  from assms(2) obtain b bs' where bs: "bs = b # bs'" by (cases bs) auto
  from assms(1) have b: "getEventBoundary this (Some (event ev)) = Some b"
    and tl: "bs' @ target # rest
               = (case parent b of None \<Rightarrow> [] | Some p \<Rightarrow> eventBoundaries p (event ev))"
    using eventBoundaries_Cons [of this "event ev" b "bs' @ target # rest"] by (simp_all add: bs)
  from tl obtain p where p: "parent b = Some p"
    and chain: "eventBoundaries p (event ev) = bs' @ target # rest"
    by (cases "parent b") auto
  from assms(3) have nb: "\<not> js_in (event ev) (handlers b)"
    and lacks: "list_all (\<lambda>b. \<not> js_in (event ev) (handlers b)) bs'"
    by (simp_all add: bs)
  have "fireEvent P this ev rtctx True = fireEvent P p ev rtctx False"
    by (rule fireEvent_bubble_step [OF b nb assms(4) p])
  also have "\<dots> = (rtctx @ [RunningHandler (node hval) (event ev) (getFullHtmlContext target)],
              ExecuteBlockP block
                (makeSpecialChildEnv target (datacontext ev) (Some (event_opts ev))))"
    using fireEvent_first_handler [where P = P and this = p and ev = ev and bs = bs'
        and target = target and rest = rest and hval = hval and block = block and rtctx = rtctx]
      chain lacks assms(4,5,6)
    by simp
  finally have eq: "fireEvent P this ev rtctx True
           = (rtctx @ [RunningHandler (node hval) (event ev) (getFullHtmlContext target)],
              ExecuteBlockP block
                (makeSpecialChildEnv target (datacontext ev) (Some (event_opts ev))))" .
  then show ?thesis
    by (simp add: promise_of_def ExecuteBlockP_spec_def)
qed

text \<open>
  The \<^verbatim>\<open>change\<close> event fired inside three nested boundaries passes the two inner ones and
  runs the handler of the outer one; an error of the handler is reported, not rejected.
\<close>

lemma scope_deep_eq:
  "scope_deep = DataEnvironment (Some scope_inner) VNull [] [] False None (Some ''<deep>'') None
     (Some hard)"
  by (simp add: scope_deep_def makeChildEnv_def new_DataEnvironment_def Object_assign_def)

lemma scope_deep_leaf_eq:
  "scope_deep_leaf = DataEnvironment (Some scope_deep) VNull [] [] False None None None None"
  by (simp add: scope_deep_leaf_def makeChildEnv_def new_DataEnvironment_def Object_assign_def)

lemma deep_boundaries:
  "eventBoundaries scope_deep_leaf ''change'' = [scope_deep, scope_inner] @ scope_outer # []"
proof -
  have 1: "getEventBoundary scope_deep_leaf (Some ''change'') = Some scope_deep"
    by (simp add: scope_deep_leaf_eq scope_deep_eq)
  have 2: "parent scope_deep = Some scope_inner" "parent scope_outer = None"
    by (simp_all add: scope_deep_eq scope_outer_eq)
  have o: "eventBoundaries scope_outer ''change'' = [scope_outer]"
    by (subst eventBoundaries.simps) (simp add: boundary_outer 2)
  have i: "eventBoundaries scope_inner ''change'' = [scope_inner, scope_outer]"
    by (subst eventBoundaries.simps) (simp add: boundary_inner inner_fields o)
  show ?thesis
    by (subst eventBoundaries.simps) (simp add: 1 2 i)
qed

theorem bubbling_drops_throwErrors_witness:
  "eventBoundaries scope_deep_leaf (event \<lparr>event = ''change'', bubble = True, datacontext = None\<rparr>)
      = [scope_deep, scope_inner] @ scope_outer # []
   \<and> [scope_deep, scope_inner] \<noteq> []
   \<and> list_all (\<lambda>b. \<not> js_in (event \<lparr>event = ''change'', bubble = True, datacontext = None\<rparr>)
                         (handlers b)) [scope_deep, scope_inner]
   \<and> bubble \<lparr>event = ''change'', bubble = True, datacontext = None\<rparr>
   \<and> map_of (handlers scope_outer) (event \<lparr>event = ''change'', bubble = True, datacontext = None\<rparr>)
       = Some \<lparr>handlerStr = ''onchange'', node = ''body''\<rparr>
   \<and> fireEvent (\<lambda>src. Some src) scope_deep_leaf
        \<lparr>event = ''change'', bubble = True, datacontext = None\<rparr> [] True
       = ([RunningHandler ''body'' ''change'' ''<outer>''],
          ExecuteBlockP ''onchange''
            (makeSpecialChildEnv scope_outer None
               (Some (event_opts \<lparr>event = ''change'', bubble = True, datacontext = None\<rparr>))))
   \<and> promise_of (\<lambda>block env. Inl (VStr ''boom''))
        (snd (fireEvent (\<lambda>src. Some src) scope_deep_leaf
                \<lparr>event = ''change'', bubble = True, datacontext = None\<rparr> [] True))
       = Some (ReportedNotRejected (VStr ''boom''))"
proof -
  have 1: "eventBoundaries scope_deep_leaf
             (event \<lparr>event = ''change'', bubble = True, datacontext = None\<rparr>)
      = [scope_deep, scope_inner] @ scope_outer # []"
    using deep_boundaries by simp
  have 2: "[scope_deep, scope_inner] \<noteq> []" by simp
  have 3: "list_all (\<lambda>b. \<not> js_in (event \<lparr>event = ''change'', bubble = True, datacontext = None\<rparr>)
                         (handlers b)) [scope_deep, scope_inner]"
    by (simp add: scope_deep_eq inner_fields js_in_def has_key_def Object_prototype_names_def)
  have 4: "bubble \<lparr>event = ''change'', bubble = True, datacontext = None\<rparr>" by simp
  have 5: "map_of (handlers scope_outer)
             (event \<lparr>event = ''change'', bubble = True, datacontext = None\<rparr>)
       = Some \<lparr>handlerStr = ''onchange'', node = ''body''\<rparr>"
    by (simp add: outer_handlers)
  have 6: "(\<lambda>src. Some src) (handlerStr \<lparr>handlerStr = ''onchange'', node = ''body''\<rparr>)
             = Some ''onchange''"
    by simp
  have c: "getFullHtmlContext scope_outer = ''<outer>''"
    by (simp add: getFullHtmlContext_def scope_outer_eq)
  from 1 2 3 4 5 6
    bubbling_drops_throwErrors [where P = "\<lambda>src. Some src" and this = scope_deep_leaf
      and ev = "\<lparr>event = ''change'', bubble = True, datacontext = None\<rparr>"
      and bs = "[scope_deep, scope_inner]" and target = scope_outer and rest = "[]"
      and hval = "\<lparr>handlerStr = ''onchange'', node = ''body''\<rparr>" and block = "''onchange''"
      and rtctx = "[]" and run = "\<lambda>block env. Inl (VStr ''boom'')"]
  have "fireEvent (\<lambda>src. Some src) scope_deep_leaf
        \<lparr>event = ''change'', bubble = True, datacontext = None\<rparr> [] True
       = ([RunningHandler ''body'' ''change'' ''<outer>''],
          ExecuteBlockP ''onchange''
            (makeSpecialChildEnv scope_outer None
               (Some (event_opts \<lparr>event = ''change'', bubble = True, datacontext = None\<rparr>))))
   \<and> promise_of (\<lambda>block env. Inl (VStr ''boom''))
        (snd (fireEvent (\<lambda>src. Some src) scope_deep_leaf
                \<lparr>event = ''change'', bubble = True, datacontext = None\<rparr> [] True))
       = Some (ReportedNotRejected (VStr ''boom''))"
    by (simp add: c promise_of_def ExecuteBlockP_spec_def del: fireEvent.simps)
  with 1 2 3 4 5 show ?thesis by blast
qed

text \<open>
  Fired with \<^verbatim>\<open>throwErrors\<close> at a boundary that has the handler itself, the same handler runs
  through the throwing executor, and its error rejects the promise.
\<close>

lemma direct_dispatch_throws:
  "fireEvent (\<lambda>src. Some src) scope_outer
     \<lparr>event = ''change'', bubble = True, datacontext = None\<rparr> [] True
    = ([RunningHandler ''body'' ''change'' ''<outer>''],
       ExecuteBlockPThrow ''onchange''
         (makeSpecialChildEnv scope_outer None
            (Some (event_opts \<lparr>event = ''change'', bubble = True, datacontext = None\<rparr>))))"
  "promise_of (\<lambda>block env. Inl (VStr ''boom''))
     (ExecuteBlockPThrow ''onchange'' env) = Some (Rejected (VStr ''boom''))"
proof -
  have b: "getEventBoundary scope_outer
             (Some (event \<lparr>event = ''change'', bubble = True, datacontext = None\<rparr>))
             = Some scope_outer"
    by (simp add: boundary_outer)
  have h: "map_of (handlers scope_outer)
             (event \<lparr>event = ''change'', bubble = True, datacontext = None\<rparr>)
       = Some \<lparr>handlerStr = ''onchange'', node = ''body''\<rparr>"
    by (simp add: outer_handlers)
  have p: "(\<lambda>src. Some src) (handlerStr \<lparr>handlerStr = ''onchange'', node = ''body''\<rparr>)
             = Some ''onchange''"
    by simp
  have c: "getFullHtmlContext scope_outer = ''<outer>''"
    by (simp add: getFullHtmlContext_def scope_outer_eq)
  from b h p
    fireEvent_handler [where P = "\<lambda>src. Some src" and this = scope_outer
      and ev = "\<lparr>event = ''change'', bubble = True, datacontext = None\<rparr>"
      and env = scope_outer and hval = "\<lparr>handlerStr = ''onchange'', node = ''body''\<rparr>"
      and block = "''onchange''" and rtctx = "[]" and t = True]
  show "fireEvent (\<lambda>src. Some src) scope_outer
     \<lparr>event = ''change'', bubble = True, datacontext = None\<rparr> [] True
    = ([RunningHandler ''body'' ''change'' ''<outer>''],
       ExecuteBlockPThrow ''onchange''
         (makeSpecialChildEnv scope_outer None
            (Some (event_opts \<lparr>event = ''change'', bubble = True, datacontext = None\<rparr>))))"
    by (simp add: c del: fireEvent.simps)
  show "promise_of (\<lambda>block env. Inl (VStr ''boom''))
     (ExecuteBlockPThrow ''onchange'' env) = Some (Rejected (VStr ''boom''))"
    by (simp add: promise_of_def ExecuteBlockPThrow_spec_def)
qed

section \<open>Initialization callbacks\<close>

lemma runInitCallbacks_eq:
  "runInitCallbacks fns s = s\<lparr>calls := calls s @ map InitCallback fns\<rparr>"
  by (induction fns arbitrary: s) auto

lemma count_InitCallback: "count_list (map InitCallback fns) (InitCallback fn) = count_list fns fn"
  by (induction fns) auto

text \<open>
  Claim C9.  If \<^verbatim>\<open>Initialized\<close> is set, \<^verbatim>\<open>setInitCallback(fn)\<close> runs \<^verbatim>\<open>fn\<close> during the call and
  queues nothing.  Otherwise it only appends \<^verbatim>\<open>fn\<close> to the queue, and the next
  \<^verbatim>\<open>setInitialized\<close> sets the flag and calls the queued callbacks in order, \<^verbatim>\<open>fn\<close> last: in
  that run \<^verbatim>\<open>fn\<close> is called once for this registration (once more than it was queued before).
  Every run of \<^verbatim>\<open>setInitialized\<close> calls each entry of the queue once.
\<close>

theorem init_callbacks:
  "(Initialized s \<longrightarrow>
      fst (setInitCallback throws fn s) = s\<lparr>calls := calls s @ [InitCallback fn]\<rparr>)
   \<and> (\<not> Initialized s \<longrightarrow>
        setInitCallback throws fn s = (s\<lparr>InitCallbacks := InitCallbacks s @ [fn]\<rparr>, None)
        \<and> setInitialized (fst (setInitCallback throws fn s))
            = s\<lparr>Initialized := True, InitCallbacks := InitCallbacks s @ [fn],
                 calls := calls s @ map InitCallback (InitCallbacks s) @ [InitCallback fn]\<rparr>
        \<and> count_list (drop (length (calls s))
                        (calls (setInitialized (fst (setInitCallback throws fn s)))))
             (InitCallback fn)
            = Suc (count_list (InitCallbacks s) fn))
   \<and> calls (setInitialized s) = calls s @ map InitCallback (InitCallbacks s)"
  by (simp add: setInitCallback_def setInitialized_def runInitCallbacks_eq count_InitCallback)

theorem init_callbacks_witness:
  "Initialized example_state
   \<and> fst (setInitCallback (\<lambda>n. False) 7 example_state) = example_state\<lparr>calls := [InitCallback 7]\<rparr>
   \<and> \<not> Initialized (example_state\<lparr>Initialized := False, InitCallbacks := [4]\<rparr>)
   \<and> calls (setInitialized (fst (setInitCallback (\<lambda>n. False) 7
               (example_state\<lparr>Initialized := False, InitCallbacks := [4]\<rparr>))))
       = [InitCallback 4, InitCallback 7]"
proof -
  have i: "Initialized example_state" "calls example_state = []"
    by (simp_all add: example_state_def)
  have n: "\<not> Initialized (example_state\<lparr>Initialized := False, InitCallbacks := [4]\<rparr>)"
    by simp
  from i init_callbacks [of example_state "\<lambda>n. False" 7]
  have 1: "fst (setInitCallback (\<lambda>n. False) 7 example_state)
             = example_state\<lparr>calls := [InitCallback 7]\<rparr>"
    by simp
  from n init_callbacks [of "example_state\<lparr>Initialized := False, InitCallbacks := [4]\<rparr>"
      "\<lambda>n. False" 7]
  have "setInitialized (fst (setInitCallback (\<lambda>n. False) 7
               (example_state\<lparr>Initialized := False, InitCallbacks := [4]\<rparr>)))
          = (example_state\<lparr>Initialized := False, InitCallbacks := [4]\<rparr>)
              \<lparr>Initialized := True,
               InitCallbacks :=
                 InitCallbacks (example_state\<lparr>Initialized := False, InitCallbacks := [4]\<rparr>) @ [7],
               calls := calls (example_state\<lparr>Initialized := False, InitCallbacks := [4]\<rparr>)
                  @ map InitCallback
                      (InitCallbacks (example_state\<lparr>Initialized := False, InitCallbacks := [4]\<rparr>))
                  @ [InitCallback 7]\<rparr>"
    by blast
  then have 2: "calls (setInitialized (fst (setInitCallback (\<lambda>n. False) 7
               (example_state\<lparr>Initialized := False, InitCallbacks := [4]\<rparr>))))
       = [InitCallback 4, InitCallback 7]"
    by (simp add: i(2))
  show ?thesis using i(1) n 1 2 by blast
qed

text \<open>\<^verbatim>\<open>setInitialized\<close> leaves the queue in place: a second run calls every callback again.\<close>

lemma setInitialized_again:
  "calls (setInitialized (setInitialized s))
     = calls s @ map InitCallback (InitCallbacks s) @ map InitCallback (InitCallbacks s)"
  by (simp add: setInitialized_def runInitCallbacks_eq)

section \<open>The fetch module's method check\<close>

lemma toUpperCase_simps [simp]:
  "toUpperCase [] = []" "toUpperCase (c # cs) = toUpperCase_char c # toUpperCase cs"
  by (simp_all add: toUpperCase_def)

lemma valid_method_iff:
  "map_of VALID_METHODS m = Some True
     \<longleftrightarrow> m \<in> set [''GET'', ''POST'', ''PUT'', ''PATCH'', ''DELETE'']"
  by (auto simp: VALID_METHODS_def split: if_splits)

text \<open>
  Claim C2, as the code has it.  The method of a fetch call is the path fragment in upper
  case, and the call fails with the invalid-method error exactly when that is not one of
  \<^verbatim>\<open>GET\<close>, \<^verbatim>\<open>POST\<close>, \<^verbatim>\<open>PUT\<close>, \<^verbatim>\<open>PATCH\<close>, \<^verbatim>\<open>DELETE\<close>; an accepted call goes on with the upper-case
  method.  \<^verbatim>\<open>head\<close> in any letter case fails with the invalid-method error, and so does
  \<^verbatim>\<open>TRACE\<close>.
\<close>

theorem fetch_method_check:
  "(req_pathfrag (rpath req) = Some m \<longrightarrow>
      ((\<exists>e. FetchModule_callHandler URL req = Inl (InvalidMethod e))
         \<longleftrightarrow> toUpperCase m \<notin> set [''GET'', ''POST'', ''PUT'', ''PATCH'', ''DELETE''])
      \<and> (toUpperCase m \<notin> set [''GET'', ''POST'', ''PUT'', ''PATCH'', ''DELETE''] \<longrightarrow>
           FetchModule_callHandler URL req = Inl (InvalidMethod (toUpperCase m)))
      \<and> (\<forall>meth url params. FetchModule_callHandler URL req = Inr (meth, url, params) \<longrightarrow>
           meth = toUpperCase m)
      \<and> (toUpperCase m = ''HEAD'' \<longrightarrow> FetchModule_callHandler URL req = Inl (InvalidMethod ''HEAD''))
      \<and> (toUpperCase m = ''TRACE'' \<longrightarrow> FetchModule_callHandler URL req = Inl (InvalidMethod ''TRACE'')))"
proof (intro impI)
  assume m: "req_pathfrag (rpath req) = Some m"
  show "((\<exists>e. FetchModule_callHandler URL req = Inl (InvalidMethod e))
         \<longleftrightarrow> toUpperCase m \<notin> set [''GET'', ''POST'', ''PUT'', ''PATCH'', ''DELETE''])
      \<and> (toUpperCase m \<notin> set [''GET'', ''POST'', ''PUT'', ''PATCH'', ''DELETE''] \<longrightarrow>
           FetchModule_callHandler URL req = Inl (InvalidMethod (toUpperCase m)))
      \<and> (\<forall>meth url params. FetchModule_callHandler URL req = Inr (meth, url, params) \<longrightarrow>
           meth = toUpperCase m)
      \<and> (toUpperCase m = ''HEAD'' \<longrightarrow> FetchModule_callHandler URL req = Inl (InvalidMethod ''HEAD''))
      \<and> (toUpperCase m = ''TRACE'' \<longrightarrow> FetchModule_callHandler URL req = Inl (InvalidMethod ''TRACE''))"
  proof (cases "map_of VALID_METHODS (toUpperCase m) = Some True")
    case True
    have v: "toUpperCase m \<in> set [''GET'', ''POST'', ''PUT'', ''PATCH'', ''DELETE'']"
      using True valid_method_iff [of "toUpperCase m"] by blast
    have ne: "FetchModule_callHandler URL req \<noteq> Inl (InvalidMethod e)" for e
      using m True
      by (simp add: FetchModule_callHandler_def Let_def split: val.splits option.splits list.splits)
    have r: "meth = toUpperCase m" if "FetchModule_callHandler URL req = Inr (meth, url, params)"
      for meth url params
      using that m True
      by (simp add: FetchModule_callHandler_def Let_def split: val.splits option.splits
          list.splits if_splits)
    from v have "toUpperCase m \<noteq> ''HEAD''" "toUpperCase m \<noteq> ''TRACE''" by auto
    with v ne r show ?thesis by blast
  next
    case False
    have v: "toUpperCase m \<notin> set [''GET'', ''POST'', ''PUT'', ''PATCH'', ''DELETE'']"
      using False valid_method_iff [of "toUpperCase m"] by blast
    have e: "FetchModule_callHandler URL req = Inl (InvalidMethod (toUpperCase m))"
      using m False by (simp add: FetchModule_callHandler_def Let_def)
    then have "\<exists>e. FetchModule_callHandler URL req = Inl (InvalidMethod e)" by blast
    moreover have "\<forall>meth url params. FetchModule_callHandler URL req = Inr (meth, url, params) \<longrightarrow>
           meth = toUpperCase m"
      by (simp add: e)
    moreover have "toUpperCase m = ''HEAD'' \<longrightarrow> FetchModule_callHandler URL req = Inl (InvalidMethod ''HEAD'')"
      by (simp add: e)
    moreover have "toUpperCase m = ''TRACE'' \<longrightarrow> FetchModule_callHandler URL req = Inl (InvalidMethod ''TRACE'')"
      by (simp add: e)
    ultimately show ?thesis using v e by blast
  qed
qed

text \<open>\<^verbatim>\<open>head\<close> and \<^verbatim>\<open>HeAd\<close> are rejected.\<close>

theorem fetch_head_counterexample:
  "FetchModule_callHandler (\<lambda>u. Some u)
     \<lparr>rpath = \<lparr>req_module = ''fetch'', req_path = ''/'', req_pathfrag = Some ''head''\<rparr>,
      rdata = Some [VStr ''https://example.com/''], pure = False\<rparr>
    = Inl (InvalidMethod ''HEAD'')
   \<and> FetchModule_callHandler (\<lambda>u. Some u)
     \<lparr>rpath = \<lparr>req_module = ''fetch'', req_path = ''/'', req_pathfrag = Some ''HeAd''\<rparr>,
      rdata = Some [VStr ''https://example.com/''], pure = False\<rparr>
    = Inl (InvalidMethod ''HEAD'')"
  by (simp add: FetchModule_callHandler_def toUpperCase_char_def lowers_def uppers_def
      VALID_METHODS_def)

theorem fetch_method_check_witness:
  "req_pathfrag (rpath \<lparr>rpath = \<lparr>req_module = ''fetch'', req_path = ''/'', req_pathfrag = Some ''trace''\<rparr>,
        rdata = Some [VStr ''https://example.com/''], pure = False\<rparr>) = Some ''trace''
   \<and> toUpperCase ''trace'' = ''TRACE''
   \<and> toUpperCase ''trace'' \<notin> set [''GET'', ''POST'', ''PUT'', ''PATCH'', ''DELETE'']
   \<and> FetchModule_callHandler (\<lambda>u. Some u)
        \<lparr>rpath = \<lparr>req_module = ''fetch'', req_path = ''/'', req_pathfrag = Some ''trace''\<rparr>,
         rdata = Some [VStr ''https://example.com/''], pure = False\<rparr>
       = Inl (InvalidMethod ''TRACE'')"
proof -
  have t: "toUpperCase ''trace'' = ''TRACE''"
    by (simp add: toUpperCase_char_def lowers_def uppers_def)
  have n: "toUpperCase ''trace'' \<notin> set [''GET'', ''POST'', ''PUT'', ''PATCH'', ''DELETE'']"
    unfolding t by simp
  have p: "req_pathfrag (rpath \<lparr>rpath = \<lparr>req_module = ''fetch'', req_path = ''/'', req_pathfrag = Some ''trace''\<rparr>,
        rdata = Some [VStr ''https://example.com/''], pure = False\<rparr>) = Some ''trace''"
    by simp
  from fetch_method_check [of "\<lparr>rpath = \<lparr>req_module = ''fetch'', req_path = ''/'', req_pathfrag = Some ''trace''\<rparr>,
        rdata = Some [VStr ''https://example.com/''], pure = False\<rparr>" "''trace''" "\<lambda>u. Some u"] p t
  have "FetchModule_callHandler (\<lambda>u. Some u)
        \<lparr>rpath = \<lparr>req_module = ''fetch'', req_path = ''/'', req_pathfrag = Some ''trace''\<rparr>,
         rdata = Some [VStr ''https://example.com/''], pure = False\<rparr>
       = Inl (InvalidMethod ''TRACE'')"
    by blast
  with p t n show ?thesis by blast
qed

text \<open>An allowed method in lower case is accepted and normalized.\<close>

lemma fetch_post_accepted:
  "FetchModule_callHandler (\<lambda>u. Some u)
     \<lparr>rpath = \<lparr>req_module = ''fetch'', req_path = ''/'', req_pathfrag = Some ''post''\<rparr>,
      rdata = Some [VStr ''https://example.com/'', VObj [(''id'', VNum 1)]], pure = False\<rparr>
    = Inr (''POST'', ''https://example.com/'', VObj [(''id'', VNum 1)])"
  by (simp add: FetchModule_callHandler_def toUpperCase_char_def lowers_def uppers_def
      VALID_METHODS_def is_nullish_def is_object_def)

section \<open>Handler paths\<close>

text \<open>The \<^verbatim>\<open>ns\<close> of a parsed path is never \<^verbatim>\<open>null\<close>.\<close>

lemma parseHandler_ns: "parseHandler hp = Some h \<Longrightarrow> ns h \<noteq> None"
  by (auto simp: parseHandler_def split: option.splits list.splits if_splits prod.splits)

lemma parseHandler_example:
  "parseHandler (Some ''/@fetch/users:GET'')
     = Some \<lparr>ns = Some ''fetch'', path = ''/users'', pathfrag = ''GET''\<rparr>"
  "parseHandler (Some []) = None"
  "parseHandler (Some ''users'') = None"
  by (simp_all add: parseHandler_def is_ns_start_def is_ns_char_def is_path_char_def
      is_frag_char_def is_letter_def lowers_def uppers_def digits_def)

text \<open>
  A path without namespace part is looked up under the empty name, whatever else is
  registered.
\<close>

lemma no_namespace_lookup:
  assumes "parseHandler (Some hp) = Some h" and "ns h = Some ''''"
    and "map_of Modules '''' = None"
  shows "callHandlerInternalAsync Modules (Some hp) handlerData pureRequest
           = Inl (ModuleNotFound '''')"
proof -
  from assms(1) have "hp \<noteq> []"
    by (auto simp: parseHandler_def)
  with assms show ?thesis
    by (simp add: callHandlerInternalAsync_def)
qed

text \<open>
  Claim C3, at a failing input.  The path \<^verbatim>\<open>/users\<close> has no namespace part; \<^verbatim>\<open>parseHandler\<close>
  gives it the empty string as namespace, which \<^verbatim>\<open>?? "default"\<close> does not replace, so the
  gateway looks up a module of that name and fails although a module \<^verbatim>\<open>default\<close> is
  registered.
\<close>

theorem default_namespace_not_applied:
  "parseHandler (Some ''/users'') = Some \<lparr>ns = Some '''', path = ''/users'', pathfrag = ''''\<rparr>
   \<and> callHandlerInternalAsync [(''default'', ''default-module''), (''fetch'', ''fetch-module'')]
        (Some ''/users'') (Some []) False
       = Inl (ModuleNotFound '''')"
proof -
  have p: "parseHandler (Some ''/users'') = Some \<lparr>ns = Some '''', path = ''/users'', pathfrag = ''''\<rparr>"
    by (simp add: parseHandler_def is_ns_start_def is_path_char_def lowers_def uppers_def digits_def)
  show ?thesis
    by (simp add: callHandlerInternalAsync_def p)
qed

section \<open>Errors of resolveRoot\<close>

text \<open>
  When \<^verbatim>\<open>resolveRoot\<close> throws: the invalid-caret error exactly when a caret is given and is
  less than 0 or greater than 1 (for a whole-number caret: exactly when it is not 0 or 1), and
  the invalid-root error exactly when the caret passes that check and the root name is
  neither one of the well-known names nor a name that \<^verbatim>\<open>in\<close> finds in the data roots, own or
  inherited.
\<close>

lemma resolveRoot_errors:
  "(resolveRoot roots this rootName opts = Inl InvalidCaret
      \<longleftrightarrow> (\<exists>os c. opts = Some os \<and> caret os = Some c \<and> (c < 0 \<or> 1 < c)))
   \<and> (opts = Some \<lparr>caret = Some (of_int n)\<rparr> \<longrightarrow>
        (resolveRoot roots this rootName opts = Inl InvalidCaret \<longleftrightarrow> n \<notin> {0, 1}))
   \<and> (resolveRoot roots this rootName opts = Inl InvalidRoot
      \<longleftrightarrow> \<not> (\<exists>os c. opts = Some os \<and> caret os = Some c \<and> (c < 0 \<or> 1 < c))
          \<and> rootName \<notin> set well_known_roots \<and> \<not> js_in rootName roots)"
proof -
  have 1: "resolveRoot roots this rootName opts = Inl InvalidCaret
      \<longleftrightarrow> (\<exists>os c. opts = Some os \<and> caret os = Some c \<and> (c < 0 \<or> 1 < c))"
    by (auto simp: resolveRoot_def Let_def split: option.splits if_splits)
  have 2: "resolveRoot roots this rootName opts = Inl InvalidRoot
      \<longleftrightarrow> \<not> (\<exists>os c. opts = Some os \<and> caret os = Some c \<and> (c < 0 \<or> 1 < c))
          \<and> rootName \<notin> set well_known_roots \<and> \<not> js_in rootName roots"
    by (auto simp: resolveRoot_def Let_def well_known_roots_def split: option.splits if_splits)
  have 3: "resolveRoot roots this rootName opts = Inl InvalidCaret \<longleftrightarrow> n \<notin> {0, 1}"
    if "opts = Some \<lparr>caret = Some (of_int n)\<rparr>"
  proof -
    have "(rat_of_int n < 0 \<or> 1 < rat_of_int n) \<longleftrightarrow> n \<notin> {0, 1}" by auto
    with 1 that show ?thesis by simp
  qed
  from 1 2 3 show ?thesis by blast
qed

lemma resolveRoot_examples:
  "resolveRoot [] scopeC ''local'' (Some \<lparr>caret = Some 2\<rparr>) = Inl InvalidCaret"
  "resolveRoot [] scopeC ''local'' (Some \<lparr>caret = Some (- 1)\<rparr>) = Inl InvalidCaret"
  "resolveRoot [] scopeC ''nosuchroot'' None = Inl InvalidRoot"
  "resolveRoot [(''extra'', VNum 7)] scopeC ''extra'' None = Inr (RValue (VNum 7))"
  by (simp_all add: resolveRoot_def Let_def js_in_def has_key_def Object_prototype_names_def
      unbox_root_def js_get_def)

text \<open>
  Claim C7, at failing inputs.  A caret of one half is outside \<open>{0, 1}\<close>, yet it passes the
  guard: \<^verbatim>\<open>resolveRoot("local", {caret: 0.5})\<close> throws nothing and returns \<^verbatim>\<open>undefined\<close>.  And
  \<^verbatim>\<open>toString\<close> is neither a well-known root nor a registered data root, yet
  \<^verbatim>\<open>resolveRoot("toString")\<close> throws nothing and returns the inherited member.
\<close>

theorem caret_one_half_accepted:
  "resolveRoot [(''global'', VObj []), (''state'', VObj [])] scopeC ''local''
      (Some \<lparr>caret = Some (1 / 2)\<rparr>) = Inr (RValue VUndefined)
   \<and> resolveRoot [(''global'', VObj []), (''state'', VObj [])] scopeC ''local''
      (Some \<lparr>caret = Some (1 / 2)\<rparr>) \<noteq> Inl InvalidCaret
   \<and> ''toString'' \<notin> set well_known_roots
   \<and> \<not> has_key ''toString'' [(''global'', VObj []), (''state'', VObj [])]
   \<and> resolveRoot [(''global'', VObj []), (''state'', VObj [])] scopeC ''toString'' None
       = Inr (RValue (VInherited ''toString''))"
proof -
  have fl: "\<lfloor>(1::rat) / 2\<rfloor> = 0"
    by (rule floor_unique) simp_all
  have a: "resolveRoot [(''global'', VObj []), (''state'', VObj [])] scopeC ''local''
      (Some \<lparr>caret = Some (1 / 2)\<rparr>) = Inr (RValue VUndefined)"
    by (simp add: resolveRoot_def Let_def scopeC_def scopeB_def scopeA_def makeChildEnv_def
        new_DataEnvironment_def Object_assign_def fl)
  have b: "''toString'' \<notin> set well_known_roots"
    "\<not> has_key ''toString'' [(''global'', VObj []), (''state'', VObj [])]"
    by (simp_all add: well_known_roots_def has_key_def)
  have c: "resolveRoot [(''global'', VObj []), (''state'', VObj [])] scopeC ''toString'' None
       = Inr (RValue (VInherited ''toString''))"
    by (simp add: resolveRoot_def Let_def js_in_def has_key_def Object_prototype_names_def
        unbox_root_def js_get_def)
  from a b c show ?thesis by simp
qed

end
